theory Spec2Isabelle
  imports Complex_Main
begin

section \<open>JavaScript numbers\<close>

text \<open>
  Every \<^verbatim>\<open>number\<close> of the TypeScript sources is an IEEE double. The model keeps the three
  special values that decide control flow (\<^verbatim>\<open>NaN\<close>, \<^verbatim>\<open>Infinity\<close>, \<^verbatim>\<open>-Infinity\<close>) and takes
  the finite values to be exact rationals: rounding to 53 bits is not modelled, and zero
  carries no sign (it behaves as \<^verbatim>\<open>+0\<close>). Division never raises in JavaScript; it yields
  an infinity or \<^verbatim>\<open>NaN\<close>, and so it does here.
\<close>

datatype jsnum = Fin rat | PInf | NInf | NaN

fun jneg :: "jsnum \<Rightarrow> jsnum" where
  "jneg (Fin a) = Fin (- a)"
| "jneg PInf = NInf"
| "jneg NInf = PInf"
| "jneg NaN = NaN"

fun jadd :: "jsnum \<Rightarrow> jsnum \<Rightarrow> jsnum" where
  "jadd (Fin a) (Fin b) = Fin (a + b)"
| "jadd NaN _ = NaN"
| "jadd _ NaN = NaN"
| "jadd PInf NInf = NaN"
| "jadd NInf PInf = NaN"
| "jadd PInf _ = PInf"
| "jadd _ PInf = PInf"
| "jadd NInf _ = NInf"
| "jadd _ NInf = NInf"

definition jsub :: "jsnum \<Rightarrow> jsnum \<Rightarrow> jsnum" where
  "jsub a b = jadd a (jneg b)"

fun jmul :: "jsnum \<Rightarrow> jsnum \<Rightarrow> jsnum" where
  "jmul (Fin a) (Fin b) = Fin (a * b)"
| "jmul NaN _ = NaN"
| "jmul _ NaN = NaN"
| "jmul (Fin a) PInf = (if a = 0 then NaN else if 0 < a then PInf else NInf)"
| "jmul (Fin a) NInf = (if a = 0 then NaN else if 0 < a then NInf else PInf)"
| "jmul PInf (Fin b) = (if b = 0 then NaN else if 0 < b then PInf else NInf)"
| "jmul NInf (Fin b) = (if b = 0 then NaN else if 0 < b then NInf else PInf)"
| "jmul PInf PInf = PInf"
| "jmul PInf NInf = NInf"
| "jmul NInf PInf = NInf"
| "jmul NInf NInf = PInf"

fun jdiv :: "jsnum \<Rightarrow> jsnum \<Rightarrow> jsnum" where
  "jdiv (Fin a) (Fin b) =
     (if b = 0 then (if a = 0 then NaN else if 0 < a then PInf else NInf)
      else Fin (a / b))"
| "jdiv NaN _ = NaN"
| "jdiv _ NaN = NaN"
| "jdiv (Fin a) PInf = Fin 0"
| "jdiv (Fin a) NInf = Fin 0"
| "jdiv PInf (Fin b) = (if 0 \<le> b then PInf else NInf)"
| "jdiv NInf (Fin b) = (if 0 \<le> b then NInf else PInf)"
| "jdiv PInf PInf = NaN"
| "jdiv PInf NInf = NaN"
| "jdiv NInf PInf = NaN"
| "jdiv NInf NInf = NaN"

fun Math_abs :: "jsnum \<Rightarrow> jsnum" where
  "Math_abs (Fin a) = Fin \<bar>a\<bar>"
| "Math_abs PInf = PInf"
| "Math_abs NInf = PInf"
| "Math_abs NaN = NaN"

text \<open>The comparisons \<^verbatim>\<open><=\<close> and \<^verbatim>\<open>>\<close>: false whenever an operand is \<^verbatim>\<open>NaN\<close>.\<close>

fun jle :: "jsnum \<Rightarrow> jsnum \<Rightarrow> bool" where
  "jle (Fin a) (Fin b) = (a \<le> b)"
| "jle NaN _ = False"
| "jle _ NaN = False"
| "jle NInf _ = True"
| "jle _ PInf = True"
| "jle PInf _ = False"
| "jle _ NInf = False"

fun jgt :: "jsnum \<Rightarrow> jsnum \<Rightarrow> bool" where
  "jgt (Fin a) (Fin b) = (b < a)"
| "jgt NaN _ = False"
| "jgt _ NaN = False"
| "jgt PInf PInf = False"
| "jgt PInf _ = True"
| "jgt NInf _ = False"
| "jgt _ NInf = True"
| "jgt _ PInf = False"

text \<open>\<^verbatim>\<open>Math.min\<close> and \<^verbatim>\<open>Math.max\<close> of two arguments: \<^verbatim>\<open>NaN\<close> if either is.\<close>

fun Math_min :: "jsnum \<Rightarrow> jsnum \<Rightarrow> jsnum" where
  "Math_min (Fin a) (Fin b) = Fin (min a b)"
| "Math_min NaN _ = NaN"
| "Math_min _ NaN = NaN"
| "Math_min NInf _ = NInf"
| "Math_min _ NInf = NInf"
| "Math_min PInf b = b"
| "Math_min a PInf = a"

fun Math_max :: "jsnum \<Rightarrow> jsnum \<Rightarrow> jsnum" where
  "Math_max (Fin a) (Fin b) = Fin (max a b)"
| "Math_max NaN _ = NaN"
| "Math_max _ NaN = NaN"
| "Math_max PInf _ = PInf"
| "Math_max _ PInf = PInf"
| "Math_max NInf b = b"
| "Math_max a NInf = a"

text \<open>\<^verbatim>\<open>Math.round\<close>: the nearest integer, a half rounding towards \<^verbatim>\<open>+Infinity\<close>.\<close>

fun Math_round :: "jsnum \<Rightarrow> jsnum" where
  "Math_round (Fin a) = Fin (of_int \<lfloor>a + 1 / 2\<rfloor>)"
| "Math_round PInf = PInf"
| "Math_round NInf = NInf"
| "Math_round NaN = NaN"

text \<open>Truthiness of a number: \<^verbatim>\<open>0\<close> and \<^verbatim>\<open>NaN\<close> are falsy.\<close>

fun truthy :: "jsnum \<Rightarrow> bool" where
  "truthy (Fin a) = (a \<noteq> 0)"
| "truthy NaN = False"
| "truthy _ = True"

section \<open>Strings\<close>

definition isDigit :: "char \<Rightarrow> bool" where
  "isDigit c = (48 \<le> (of_char c :: nat) \<and> (of_char c :: nat) \<le> 57)"

definition digitVal :: "char \<Rightarrow> nat" where
  "digitVal c = (of_char c :: nat) - 48"

text \<open>The decimal value of a string of digits, read left to right.\<close>

fun digitsVal :: "nat \<Rightarrow> string \<Rightarrow> nat" where
  "digitsVal acc [] = acc"
| "digitsVal acc (c # cs) = digitsVal (10 * acc + digitVal c) cs"

text \<open>The white space \<^verbatim>\<open>parseFloat\<close> skips, as far as a byte string has it: tab, line feed,
  vertical tab, form feed, carriage return and space.\<close>

definition isWhite :: "char \<Rightarrow> bool" where
  "isWhite c = ((of_char c :: nat) \<in> {9, 10, 11, 12, 13, 32})"

fun startsWith :: "string \<Rightarrow> string \<Rightarrow> bool" where
  "startsWith s [] = True"
| "startsWith [] (p # ps) = False"
| "startsWith (c # cs) (p # ps) = (c = p \<and> startsWith cs ps)"

text \<open>\<^verbatim>\<open>String.prototype.includes\<close>.\<close>

fun str_includes :: "string \<Rightarrow> string \<Rightarrow> bool" where
  "str_includes [] needle = (needle = [])"
| "str_includes (c # cs) needle = (startsWith (c # cs) needle \<or> str_includes cs needle)"

text \<open>\<^verbatim>\<open>toLowerCase\<close> on the ASCII letters.\<close>

definition lowerChar :: "char \<Rightarrow> char" where
  "lowerChar c =
     (if 65 \<le> (of_char c :: nat) \<and> (of_char c :: nat) \<le> 90
      then char_of ((of_char c :: nat) + 32) else c)"

definition toLowerCase :: "string \<Rightarrow> string" where
  "toLowerCase s = map lowerChar s"

text \<open>The exponent of a decimal literal: \<^verbatim>\<open>e\<close> or \<^verbatim>\<open>E\<close>, an optional sign and at least
  one digit; anything else is no exponent.\<close>

definition exponentOf :: "string \<Rightarrow> int" where
  "exponentOf r =
     (case r of
        [] \<Rightarrow> 0
      | c # r1 \<Rightarrow>
          if c = CHR ''e'' \<or> c = CHR ''E'' then
            (case r1 of
               [] \<Rightarrow> 0
             | d # r2 \<Rightarrow>
                 if d = CHR ''-'' then
                   (if takeWhile isDigit r2 = [] then 0
                    else - int (digitsVal 0 (takeWhile isDigit r2)))
                 else if d = CHR ''+'' then int (digitsVal 0 (takeWhile isDigit r2))
                 else int (digitsVal 0 (takeWhile isDigit r1)))
          else 0)"

definition scale10 :: "rat \<Rightarrow> int \<Rightarrow> rat" where
  "scale10 m e = (if 0 \<le> e then m * 10 ^ nat e else m / 10 ^ nat (- e))"

text \<open>
  \<^verbatim>\<open>Number.parseFloat\<close>: leading white space, an optional sign, then \<^verbatim>\<open>Infinity\<close> or the
  longest decimal literal (digits, an optional fraction, an optional exponent); \<^verbatim>\<open>NaN\<close>
  when no digit is found. Whatever follows the literal is ignored.
\<close>

definition parseFloat :: "string \<Rightarrow> jsnum" where
  "parseFloat s =
     (let s1 = dropWhile isWhite s;
          neg = (s1 \<noteq> [] \<and> hd s1 = CHR ''-'');
          s2 = (if s1 \<noteq> [] \<and> (hd s1 = CHR ''-'' \<or> hd s1 = CHR ''+'') then tl s1 else s1)
      in if startsWith s2 ''Infinity'' then (if neg then NInf else PInf)
         else
           let ip = takeWhile isDigit s2;
               r1 = dropWhile isDigit s2;
               fp = (if r1 \<noteq> [] \<and> hd r1 = CHR ''.'' then takeWhile isDigit (tl r1) else []);
               r2 = (if r1 \<noteq> [] \<and> hd r1 = CHR ''.'' then dropWhile isDigit (tl r1) else r1)
           in if ip = [] \<and> fp = [] then NaN
              else
                let mant = of_nat (digitsVal 0 ip)
                             + of_nat (digitsVal 0 fp) / 10 ^ length fp;
                    v = scale10 mant (exponentOf r2)
                in Fin (if neg then - v else v))"

section \<open>The decision tree\<close>

text \<open>
  \<^verbatim>\<open>interface DecisionNode { value; level; win?; loss?; final? }\<close>. The field \<^verbatim>\<open>value\<close>
  is called \<open>node_value\<close> here; \<^verbatim>\<open>level\<close> is a number or the string \<^verbatim>\<open>"END"\<close>; an absent
  \<^verbatim>\<open>final\<close> is \<open>False\<close>, which is how every use of it reads the field.
\<close>

datatype level = Level nat | LevelEND

record DecisionNode =
  node_value :: string
  level :: level
  win :: "string option"
  loss :: "string option"
  final :: bool

definition mkNode :: "string \<Rightarrow> nat \<Rightarrow> string \<Rightarrow> string \<Rightarrow> DecisionNode" where
  "mkNode v l w lo =
     \<lparr>node_value = v, level = Level l, win = Some w, loss = Some lo, final = False\<rparr>"

definition mkFinal :: "string \<Rightarrow> DecisionNode" where
  "mkFinal v = \<lparr>node_value = v, level = LevelEND, win = None, loss = None, final = True\<rparr>"

definition decisionTreeEntries :: "(string \<times> DecisionNode) list" where
  "decisionTreeEntries =
    [ (''Start'', mkNode ''0.65%'' 1 ''1-0'' ''0-1''),
      (''1-0'', mkNode ''0.58%'' 2 ''2-0'' ''1-1''),
      (''0-1'', mkNode ''0.73%'' 2 ''1-1'' ''0-2''),
      (''2-0'', mkNode ''0.44%'' 3 ''3-0'' ''2-1''),
      (''1-1'', mkNode ''0.73%'' 3 ''2-1'' ''1-2''),
      (''0-2'', mkNode ''0.73%'' 3 ''1-2'' ''0-3''),
      (''3-0'', mkNode ''0.25%'' 4 ''4-0'' ''3-1''),
      (''2-1'', mkNode ''0.62%'' 4 ''3-1'' ''2-2''),
      (''1-2'', mkNode ''0.83%'' 4 ''2-2'' ''1-3''),
      (''0-3'', mkNode ''0.62%'' 4 ''1-3'' ''0-4''),
      (''4-0'', mkNode ''0.08%'' 5 ''WIN'' ''4-1''),
      (''3-1'', mkNode ''0.41%'' 5 ''4-1'' ''3-2''),
      (''2-2'', mkNode ''0.83%'' 5 ''3-2'' ''2-3''),
      (''1-3'', mkNode ''0.83%'' 5 ''2-3'' ''1-4''),
      (''0-4'', mkNode ''0.41%'' 5 ''1-4'' ''0-5''),
      (''4-1'', mkNode ''0.17%'' 6 ''WIN'' ''4-2''),
      (''3-2'', mkNode ''0.66%'' 6 ''4-2'' ''3-3''),
      (''2-3'', mkNode ''0.99%'' 6 ''3-3'' ''2-4''),
      (''1-4'', mkNode ''0.66%'' 6 ''2-4'' ''1-5''),
      (''0-5'', mkNode ''0.17%'' 6 ''1-5'' ''LOST''),
      (''4-2'', mkNode ''0.33%'' 7 ''WIN'' ''4-3''),
      (''3-3'', mkNode ''0.99%'' 7 ''4-3'' ''3-4''),
      (''2-4'', mkNode ''0.99%'' 7 ''3-4'' ''2-5''),
      (''1-5'', mkNode ''0.33%'' 7 ''2-5'' ''LOST''),
      (''4-3'', mkNode ''0.66%'' 8 ''WIN'' ''4-4''),
      (''3-4'', mkNode ''1.33%'' 8 ''4-4'' ''3-5''),
      (''2-5'', mkNode ''0.66%'' 8 ''3-5'' ''LOST''),
      (''4-4'', mkNode ''1.33%'' 9 ''WIN'' ''4-5''),
      (''3-5'', mkNode ''1.33%'' 9 ''4-5'' ''LOST''),
      (''4-5'', mkNode ''2.65%'' 10 ''WIN'' ''LOST''),
      (''WIN'', mkFinal ''+2.00%''),
      (''LOST'', mkFinal ''-3.31%'') ]"

definition decisionTree :: "string \<Rightarrow> DecisionNode option" where
  "decisionTree = map_of decisionTreeEntries"

text \<open>
  \<^verbatim>\<open>calculateValue\<close>: \<^verbatim>\<open>replace\<close> with a string pattern removes the first occurrence only,
  which is \<^const>\<open>remove1\<close> for a pattern of one character.
\<close>

definition stripPercentage :: "string \<Rightarrow> string" where
  "stripPercentage percentage =
     remove1 CHR ''-'' (remove1 CHR ''+'' (remove1 CHR ''%'' percentage))"

definition calculateValue :: "string \<Rightarrow> jsnum \<Rightarrow> jsnum" where
  "calculateValue percentage amount =
     (let numericPercentage = parseFloat (stripPercentage percentage)
      in Math_round (jmul (jdiv numericPercentage (Fin 100)) amount))"

section \<open>Node-jump validation\<close>

text \<open>\<^verbatim>\<open>interface NodeJumpValidation\<close>; an absent optional field is \<open>None\<close>.\<close>

record NodeJumpValidation =
  isValid :: bool
  expectedNode :: "string option"
  actualNode :: "string option"
  requiresRollback :: bool
  rollbackToNode :: "string option"

text \<open>The decimal numeral of a natural number, as a template string prints it.\<close>

fun showNat :: "nat \<Rightarrow> string" where
  "showNat n =
     (if n < 10 then [char_of (48 + n)]
      else showNat (n div 10) @ [char_of (48 + n mod 10)])"

declare showNat.simps [simp del]

text \<open>
  \<^verbatim>\<open>parseInt(id.replace(/\D/g, '')) || 1\<close>: the digits of the node id read as one decimal
  number; \<^verbatim>\<open>NaN\<close> (no digit) and \<^verbatim>\<open>0\<close> are falsy and give 1. Exact as long as the
  number is below \<open>2 ^ 53\<close>, which sixteen digits or more may exceed.
\<close>

definition nodeNumber :: "string \<Rightarrow> nat" where
  "nodeNumber node =
     (let ds = filter isDigit node
      in if ds = [] \<or> digitsVal 0 ds = 0 then 1 else digitsVal 0 ds)"

text \<open>\<^verbatim>\<open>validateNodeJump\<close> of the trade-result webhook.\<close>

definition validateNodeJump :: "string \<Rightarrow> string \<Rightarrow> NodeJumpValidation" where
  "validateNodeJump currentNode nextNode =
     (let currentLevel = nodeNumber currentNode;
          nextLevel = nodeNumber nextNode
      in if nextLevel > currentLevel + 1 then
           \<lparr>isValid = False,
            expectedNode = Some (''Level '' @ showNat (currentLevel + 1)),
            actualNode = Some nextNode,
            requiresRollback = True,
            rollbackToNode = Some currentNode\<rparr>
         else
           \<lparr>isValid = True,
            expectedNode = Some nextNode,
            actualNode = Some nextNode,
            requiresRollback = False,
            rollbackToNode = None\<rparr>)"








text \<open>
  The shape of the tree's stake percentages (\<^verbatim>\<open>"0.65%"\<close>, \<^verbatim>\<open>"+2.00%"\<close>, \<^verbatim>\<open>"-3.31%"\<close>):
  a digit first, or one sign and then a digit.
\<close>

definition startsWithSignedDigit :: "string \<Rightarrow> bool" where
  "startsWithSignedDigit s =
     (case s of
        [] \<Rightarrow> False
      | c # r \<Rightarrow>
          isDigit c \<or>
          ((c = CHR ''+'' \<or> c = CHR ''-'') \<and> (case r of [] \<Rightarrow> False | d # _ \<Rightarrow> isDigit d)))"

section \<open>Sessions and the trade-result webhook\<close>

text \<open>
  The rows of the tables \<^verbatim>\<open>sessions\<close> and \<^verbatim>\<open>session_steps\<close>, with the columns the modelled
  code reads or writes. Time stamps and the free-text \<^verbatim>\<open>note\<close> are left out: nothing
  modelled here reads them. A nullable column is an \<open>option\<close>; \<^verbatim>\<open>step_type\<close> has the
  default \<^verbatim>\<open>'DECISION'\<close> of the schema. The database is taken to be reachable: a lost
  connection is not part of the model.
\<close>

record SessionRow =
  session_id :: string
  current_node :: string
  initial_amount :: jsnum
  final_total :: jsnum
  is_completed :: bool
  path_summary :: string

record StepRow =
  step_session_id :: string
  step_number :: nat
  node_name :: string
  action :: "string option"
  stake_value :: "jsnum option"
  stake_result :: "jsnum option"
  step_type :: string
  execution_status :: "string option"
  trade_result_actual :: "jsnum option"

record Database =
  sessions :: "SessionRow list"
  session_steps :: "StepRow list"

definition emptyDatabase :: Database where
  "emptyDatabase = \<lparr>sessions = [], session_steps = []\<rparr>"

datatype outcome = Win | Loss

record TradeResultCallback =
  cb_trade_id :: string
  cb_session_id :: string
  cb_result :: outcome
  exit_price :: jsnum
  profit_loss :: jsnum
  exit_reason :: string

record ResultData =
  rd_session_id :: string
  rd_current_node :: string
  rd_final_total :: jsnum
  rd_is_completed :: bool
  rd_next_action :: string

text \<open>\<^verbatim>\<open>TradeResultResponse\<close>: \<open>Failure\<close> is \<^verbatim>\<open>{success: false, error}\<close>, \<open>Success\<close> is
  \<^verbatim>\<open>{success: true, message, data}\<close>.\<close>

datatype TradeResultResponse = Failure string | Success string ResultData

definition getSessionData :: "Database \<Rightarrow> string \<Rightarrow> SessionRow option" where
  "getSessionData db sessionId = find (\<lambda>r. session_id r = sessionId) (sessions db)"

definition updateSession :: "string \<Rightarrow> string \<Rightarrow> jsnum \<Rightarrow> bool \<Rightarrow> Database \<Rightarrow> Database" where
  "updateSession sessionId nextNode newTotal isCompleted db =
     db\<lparr>sessions :=
          map (\<lambda>r. if session_id r = sessionId
                    then r\<lparr>current_node := nextNode, final_total := newTotal,
                           is_completed := isCompleted\<rparr>
                    else r)
              (sessions db)\<rparr>"

text \<open>\<^verbatim>\<open>COALESCE(MAX(step_number), 0) + 1\<close> over the steps of one session.\<close>

definition nextStepNumber :: "Database \<Rightarrow> string \<Rightarrow> nat" where
  "nextStepNumber db sessionId =
     fold max (map step_number (filter (\<lambda>s. step_session_id s = sessionId) (session_steps db))) 0
       + 1"

definition resultName :: "outcome \<Rightarrow> string" where
  "resultName r = (case r of Win \<Rightarrow> ''WIN'' | Loss \<Rightarrow> ''LOSS'')"

definition recordResultStep :: "TradeResultCallback \<Rightarrow> Database \<Rightarrow> Database" where
  "recordResultStep callback db =
     db\<lparr>session_steps := session_steps db @
          [\<lparr>step_session_id = cb_session_id callback,
            step_number = nextStepNumber db (cb_session_id callback),
            node_name = resultName (cb_result callback),
            action = None, stake_value = None, stake_result = None,
            step_type = ''RESULT'', execution_status = Some ''COMPLETED'',
            trade_result_actual = Some (profit_loss callback)\<rparr>]\<rparr>"

definition updatePathSummary :: "string \<Rightarrow> string \<Rightarrow> Database \<Rightarrow> Database" where
  "updatePathSummary sessionId pathSummary db =
     db\<lparr>sessions :=
          map (\<lambda>r. if session_id r = sessionId then r\<lparr>path_summary := pathSummary\<rparr> else r)
              (sessions db)\<rparr>"

text \<open>The separator of the path summary: a space, the arrow U+2192 in UTF-8, a space.\<close>

definition arrowSep :: string where
  "arrowSep = '' '' @ [char_of (226 :: nat), char_of (134 :: nat), char_of (146 :: nat)] @ '' ''"

text \<open>
  \<^verbatim>\<open>processTradeResult\<close>. Every \<^verbatim>\<open>throw\<close> inside its \<^verbatim>\<open>try\<close> ends in the handler that
  returns \<^verbatim>\<open>{success: false, error: message}\<close>, the database as it was at the throw. When
  the validator asks for a rollback the code calls
  \<^verbatim>\<open>exceptionHandler.handleNodeJumpValidation\<close>; the class \<^verbatim>\<open>ExceptionHandler\<close> has no
  such method, so the call raises a \<^verbatim>\<open>TypeError\<close>, which the same handler catches.
\<close>

definition processTradeResult ::
    "TradeResultCallback \<Rightarrow> Database \<Rightarrow> TradeResultResponse \<times> Database" where
  "processTradeResult callback db =
     (case getSessionData db (cb_session_id callback) of
        None \<Rightarrow> (Failure (''Session not found: '' @ cb_session_id callback), db)
      | Some sessionData \<Rightarrow>
          if is_completed sessionData then
            (Failure (''Session '' @ cb_session_id callback @ '' is already completed''), db)
          else
            let newTotal = jadd (final_total sessionData) (profit_loss callback);
                currentNode = current_node sessionData
            in (case decisionTree currentNode of
                  None \<Rightarrow> (Failure (''Invalid decision tree node: '' @ currentNode), db)
                | Some node \<Rightarrow>
                    let edge = (if cb_result callback = Win then win node else loss node);
                        nextNode = (case edge of
                                      None \<Rightarrow> ''End''
                                    | Some n \<Rightarrow> if n = [] then ''End'' else n);
                        isCompleted = (nextNode = ''End'' \<or> final node);
                        nextAction =
                          (if isCompleted then ''SESSION COMPLETED''
                           else if cb_result callback = Win then ''WIN - Moving to next level''
                           else ''LOSS - Moving to next level'');
                        nodeJumpValidation = validateNodeJump currentNode nextNode
                    in if requiresRollback nodeJumpValidation then
                         (Failure ''exceptionHandler.handleNodeJumpValidation is not a function'',
                          db)
                       else
                         let db1 = updateSession (cb_session_id callback) nextNode newTotal
                                     isCompleted db;
                             db2 = recordResultStep callback db1;
                             newPathSummary =
                               (if path_summary sessionData \<noteq> []
                                then path_summary sessionData @ arrowSep @ nextNode
                                else currentNode @ arrowSep @ nextNode);
                             db3 = updatePathSummary (cb_session_id callback) newPathSummary db2
                         in (Success (''Trade result processed successfully. '' @ nextAction)
                               \<lparr>rd_session_id = cb_session_id callback,
                                rd_current_node = nextNode,
                                rd_final_total = newTotal,
                                rd_is_completed = isCompleted,
                                rd_next_action = nextAction\<rparr>,
                             db3)))"


definition route_createNewSession ::
    "string \<Rightarrow> string \<Rightarrow> jsnum \<Rightarrow> Database \<Rightarrow> string option \<times> Database" where
  "route_createNewSession sessionId currentNode initialAmount db =
     (let db1 = db\<lparr>sessions := sessions db @
                  [\<lparr>session_id = sessionId, current_node = currentNode,
                    initial_amount = initialAmount, final_total = Fin 0,
                    is_completed = False, path_summary = currentNode\<rparr>]\<rparr>
      in case decisionTree currentNode of
           None \<Rightarrow> (Some ''TypeError: cannot read the value of an undefined node'', db1)
         | Some n \<Rightarrow>
             (None,
              db1\<lparr>session_steps := session_steps db1 @
                  [\<lparr>step_session_id = sessionId, step_number = 1, node_name = currentNode,
                    action = Some ''start'',
                    stake_value = Some (calculateValue (node_value n) initialAmount),
                    stake_result = None, step_type = ''DECISION'', execution_status = None,
                    trade_result_actual = None\<rparr>]\<rparr>))"



text \<open>Outcomes delivered one after the other, each to the database the last one left.\<close>

definition applyOutcomes :: "TradeResultCallback list \<Rightarrow> Database \<Rightarrow> Database" where
  "applyOutcomes callbacks db = fold (\<lambda>cb d. snd (processTradeResult cb d)) callbacks db"

text \<open>Concrete inputs: a losing callback for the session \<^verbatim>\<open>s1\<close>, and that session as the
  trade-signal route creates it on a balance of 100000.\<close>

definition lossCallback :: TradeResultCallback where
  "lossCallback =
     \<lparr>cb_trade_id = ''t1'', cb_session_id = ''s1'', cb_result = Loss, exit_price = Fin 44500,
      profit_loss = Fin (- 650), exit_reason = ''stop_reached''\<rparr>"

definition freshSession :: Database where
  "freshSession = snd (route_createNewSession ''s1'' ''Start'' (Fin 100000) emptyDatabase)"

section \<open>The overnight trade manager\<close>

text \<open>
  \<^verbatim>\<open>interface TradeStatus\<close>, the value type of the manager's \<^verbatim>\<open>activeTrades\<close> map, and a row
  of the table \<^verbatim>\<open>overnight_trades\<close>. A \<^verbatim>\<open>Date\<close> is its \<^verbatim>\<open>getTime()\<close>, milliseconds as an
  integer. The JavaScript \<^verbatim>\<open>Map\<close> is an association list in insertion order.
\<close>

datatype trade_status = Active | Closed | Expired

record TradeStatus =
  ts_trade_id :: string
  ts_status :: trade_status
  overnightCloseEnabled :: bool
  ts_entry_time :: int
  ts_symbol :: string
  ts_current_node :: string

record OvernightTradeRow =
  ot_trade_id :: string
  ot_session_id :: string
  ot_symbol :: string
  ot_entry_price :: jsnum
  ot_target_price :: jsnum
  ot_stop_price :: jsnum
  ot_trade_amount :: jsnum
  ot_current_node :: string
  ot_previous_node :: "string option"
  ot_entry_time :: int
  ot_overnight_close_enabled :: bool
  ot_status :: trade_status

text \<open>What the manager can reach: its own map, and (through \<^verbatim>\<open>sql\<close>) the tables
  \<^verbatim>\<open>overnight_trades\<close> and \<^verbatim>\<open>sessions\<close>.\<close>

record OvernightWorld =
  activeTrades :: "(string \<times> TradeStatus) list"
  overnight_trades :: "OvernightTradeRow list"
  ow_sessions :: "SessionRow list"

text \<open>\<^verbatim>\<open>Map.prototype.set\<close>: a known key keeps its place, a new key goes last.\<close>

definition mapSet :: "'k \<Rightarrow> 'v \<Rightarrow> ('k \<times> 'v) list \<Rightarrow> ('k \<times> 'v) list" where
  "mapSet k v m =
     (if k \<in> set (map fst m) then map (\<lambda>(k', v'). if k' = k then (k, v) else (k', v')) m
      else m @ [(k, v)])"

text \<open>\<^verbatim>\<open>INSERT ... ON CONFLICT (trade_id) DO UPDATE\<close>: a row with the trade id keeps its
  status and entry time and takes the other columns of the new row.\<close>

definition upsertOvernightTrade ::
    "OvernightTradeRow \<Rightarrow> OvernightTradeRow list \<Rightarrow> OvernightTradeRow list" where
  "upsertOvernightTrade new rows =
     (if ot_trade_id new \<in> set (map ot_trade_id rows) then
        map (\<lambda>old. if ot_trade_id old = ot_trade_id new
                     then new\<lparr>ot_status := ot_status old, ot_entry_time := ot_entry_time old\<rparr>
                     else old) rows
      else rows @ [new])"

text \<open>
  \<^verbatim>\<open>registerTrade\<close>; \<open>sqlAvailable\<close> is the truth of \<^verbatim>\<open>sql\<close>, \<open>now\<close> the clock. The map
  entry holds neither the session nor the previous node. \<^verbatim>\<open>previousNode || null\<close> turns an
  empty string into \<^verbatim>\<open>null\<close>. With a database the statement is taken to succeed (the
  table then has a unique \<^verbatim>\<open>trade_id\<close> and admits the row); without one the trade is kept
  in the map only.
\<close>

definition registerTrade ::
    "bool \<Rightarrow> int \<Rightarrow> string \<Rightarrow> string \<Rightarrow> string \<Rightarrow> jsnum \<Rightarrow> jsnum \<Rightarrow> jsnum \<Rightarrow> jsnum \<Rightarrow> string
      \<Rightarrow> bool \<Rightarrow> string option \<Rightarrow> OvernightWorld \<Rightarrow> bool \<times> OvernightWorld" where
  "registerTrade sqlAvailable now tradeId sessionId symbol entryPrice targetPrice stopPrice
       tradeAmount currentNode overnightClose previousNode w =
     (let entry = \<lparr>ts_trade_id = tradeId, ts_status = Active,
                    overnightCloseEnabled = overnightClose, ts_entry_time = now,
                    ts_symbol = symbol, ts_current_node = currentNode\<rparr>
      in if \<not> sqlAvailable then (True, w\<lparr>activeTrades := mapSet tradeId entry (activeTrades w)\<rparr>)
         else
           let row = \<lparr>ot_trade_id = tradeId, ot_session_id = sessionId, ot_symbol = symbol,
                      ot_entry_price = entryPrice, ot_target_price = targetPrice,
                      ot_stop_price = stopPrice, ot_trade_amount = tradeAmount,
                      ot_current_node = currentNode,
                      ot_previous_node =
                        (case previousNode of None \<Rightarrow> None
                         | Some p \<Rightarrow> if p = [] then None else Some p),
                      ot_entry_time = now, ot_overnight_close_enabled = overnightClose,
                      ot_status = Active\<rparr>
           in (True,
               w\<lparr>overnight_trades := upsertOvernightTrade row (overnight_trades w),
                 activeTrades := mapSet tradeId entry (activeTrades w)\<rparr>))"

definition getActiveTrades :: "OvernightWorld \<Rightarrow> TradeStatus list" where
  "getActiveTrades w = filter (\<lambda>t. ts_status t = Active) (map snd (activeTrades w))"

definition hoursOpen :: "int \<Rightarrow> TradeStatus \<Rightarrow> rat" where
  "hoursOpen now trade = of_int (now - ts_entry_time trade) / (1000 * 60 * 60)"

text \<open>
  \<^verbatim>\<open>checkOvernightTrades\<close>. The body of its loop writes one line to the console for a trade
  that is enabled and has been open for more than 16 hours, and does nothing else; the
  result is the world it was given and the ids it logged, in order.
\<close>

definition checkOvernightTrades :: "int \<Rightarrow> OvernightWorld \<Rightarrow> OvernightWorld \<times> string list" where
  "checkOvernightTrades now w =
     (w, map ts_trade_id
           (filter (\<lambda>trade. overnightCloseEnabled trade \<and> 16 < hoursOpen now trade)
              (getActiveTrades w)))"

text \<open>A session that has moved from \<^verbatim>\<open>Start\<close> to \<^verbatim>\<open>0-1\<close>, and its trade registered at time 0
  with the overnight close enabled and \<^verbatim>\<open>Start\<close> as the node to roll back to; and the same
  registration as the webhook makes it (no previous node) on a server without a
  database.\<close>

definition overnightExample :: OvernightWorld where
  "overnightExample =
     snd (registerTrade True 0 ''t1'' ''s1'' ''BTCUSDT'' (Fin 45000) (Fin 46000) (Fin 44500)
            (Fin 650) ''0-1'' True (Some ''Start'')
            \<lparr>activeTrades = [], overnight_trades = [],
             ow_sessions = [\<lparr>session_id = ''s1'', current_node = ''0-1'',
                              initial_amount = Fin 100000, final_total = Fin (- 650),
                              is_completed = False, path_summary = ''Start''\<rparr>]\<rparr>)"

definition overnightMemoryExample :: OvernightWorld where
  "overnightMemoryExample =
     snd (registerTrade False 0 ''t1'' ''s1'' ''BTCUSDT'' (Fin 45000) (Fin 46000) (Fin 44500)
            (Fin 650) ''0-1'' True None
            \<lparr>activeTrades = [], overnight_trades = [], ow_sessions = []\<rparr>)"

section \<open>Signal intake\<close>

text \<open>The comparisons \<^verbatim>\<open><\<close> and \<^verbatim>\<open>>=\<close>.\<close>

definition jlt :: "jsnum \<Rightarrow> jsnum \<Rightarrow> bool" where
  "jlt a b = jgt b a"

definition jge :: "jsnum \<Rightarrow> jsnum \<Rightarrow> bool" where
  "jge a b = jle b a"

fun isNaN :: "jsnum \<Rightarrow> bool" where
  "isNaN NaN = True"
| "isNaN _ = False"

text \<open>
  The body of the webhook request after \<^verbatim>\<open>JSON.parse\<close>. The ten required fields are
  strings (\<^verbatim>\<open>interface TradeSignal\<close>); \<open>None\<close> is a field the object does not have. The field
  \<^verbatim>\<open>time\<close> is called \<open>sig_time\<close>, and so on.
\<close>

record RawSignal =
  sig_action :: "string option"
  sig_symbol :: "string option"
  sig_timeframe :: "string option"
  sig_time :: "string option"
  sig_entry :: "string option"
  sig_target :: "string option"
  sig_stop :: "string option"
  sig_id :: "string option"
  sig_rr :: "string option"
  sig_risk :: "string option"
  sig_confidence_score :: "string option"
  sig_signal_quality :: "string option"

text \<open>
  The messages pushed to \<^verbatim>\<open>errors\<close> and \<^verbatim>\<open>warnings\<close>, one constructor for each template
  string, carrying the values the template interpolates.
\<close>

datatype issue =
    MissingRequiredField string
  | InvalidAction string
  | ActionNormalized string string
  | TimeframeNormalized string string
  | InvalidTimeframe string
  | PricesNotNumeric
  | BuyTargetNotAboveEntry
  | BuyStopNotBelowEntry
  | SellTargetNotBelowEntry
  | SellStopNotAboveEntry
  | LargePriceRange jsnum
  | RiskRewardNotNumeric
  | RiskRewardNotPositive
  | LowRiskReward jsnum
  | VeryHighRiskReward jsnum
  | RiskOutsideRange jsnum
  | SignalTooOld jsnum
  | SignalAge jsnum
  | SignalAlreadyProcessed string
  | LowConfidence jsnum
  | LowQuality

record ValidationResult =
  vr_isValid :: bool
  vr_errors :: "issue list"
  vr_warnings :: "issue list option"

text \<open>\<^verbatim>\<open>!signal[field] || signal[field] === ''\<close> for a string field.\<close>

definition fieldMissing :: "string option \<Rightarrow> bool" where
  "fieldMissing f = (case f of None \<Rightarrow> True | Some s \<Rightarrow> s = [])"

definition requiredFields :: "RawSignal \<Rightarrow> (string \<times> string option) list" where
  "requiredFields s =
    [ (''action'', sig_action s), (''symbol'', sig_symbol s),
      (''timeframe'', sig_timeframe s), (''time'', sig_time s), (''entry'', sig_entry s),
      (''target'', sig_target s), (''stop'', sig_stop s), (''id'', sig_id s),
      (''rr'', sig_rr s), (''risk'', sig_risk s) ]"

text \<open>Each validator takes the pair of lists (errors, warnings) and returns it extended.\<close>

definition validateAction :: "string \<Rightarrow> issue list \<times> issue list \<Rightarrow> issue list \<times> issue list" where
  "validateAction act ew =
     (let normalizedAction = toLowerCase act
      in if normalizedAction \<notin> set [''buy'', ''sell'', ''long'', ''short'']
         then (fst ew @ [InvalidAction act], snd ew)
         else if act \<noteq> normalizedAction
         then (fst ew, snd ew @ [ActionNormalized act normalizedAction])
         else ew)"

definition timeframeMap :: "(string \<times> string) list" where
  "timeframeMap =
    [ (''1'', ''1m''), (''5'', ''5m''), (''15'', ''15m''), (''30'', ''30m''),
      (''60'', ''1h''), (''240'', ''4h''), (''1440'', ''1d''), (''10080'', ''1w'') ]"

text \<open>The regular expression \<^verbatim>\<open>/^\d+[mhdw]$/\<close>.\<close>

definition timeframeWellFormed :: "string \<Rightarrow> bool" where
  "timeframeWellFormed tf =
     (tf \<noteq> [] \<and> butlast tf \<noteq> [] \<and> list_all isDigit (butlast tf)
      \<and> last tf \<in> set ''mhdw'')"

text \<open>The table is read by its own keys only; a key inherited from \<^verbatim>\<open>Object.prototype\<close>
  (such as \<^verbatim>\<open>constructor\<close>) is outside the model, here and for the decision tree.\<close>

definition validateTimeframe ::
    "string \<Rightarrow> issue list \<times> issue list \<Rightarrow> issue list \<times> issue list" where
  "validateTimeframe tf ew =
     (case map_of timeframeMap tf of
        Some normalizedTimeframe \<Rightarrow> (fst ew, snd ew @ [TimeframeNormalized tf normalizedTimeframe])
      | None \<Rightarrow>
          if \<not> timeframeWellFormed tf then (fst ew @ [InvalidTimeframe tf], snd ew) else ew)"

definition validatePrices ::
    "string \<Rightarrow> string \<Rightarrow> string \<Rightarrow> string \<Rightarrow> issue list \<times> issue list \<Rightarrow> issue list \<times> issue list" where
  "validatePrices act entryS targetS stopS ew =
     (let entry = parseFloat entryS; target = parseFloat targetS; stop = parseFloat stopS
      in if isNaN entry \<or> isNaN target \<or> isNaN stop then (fst ew @ [PricesNotNumeric], snd ew)
         else
           let a = toLowerCase act;
               errs =
                 (if a = ''buy'' \<or> a = ''long'' then
                    (if jle target entry then [BuyTargetNotAboveEntry] else [])
                    @ (if jge stop entry then [BuyStopNotBelowEntry] else [])
                  else if a = ''sell'' \<or> a = ''short'' then
                    (if jge target entry then [SellTargetNotBelowEntry] else [])
                    @ (if jle stop entry then [SellStopNotAboveEntry] else [])
                  else []);
               priceRange = jdiv (Math_abs (jsub target entry)) entry
           in (fst ew @ errs,
               snd ew @ (if jgt priceRange (Fin (1 / 10)) then [LargePriceRange priceRange] else [])))"

definition validateRiskReward ::
    "string \<Rightarrow> string \<Rightarrow> issue list \<times> issue list \<Rightarrow> issue list \<times> issue list" where
  "validateRiskReward rrS riskS ew =
     (let rr = parseFloat rrS; risk = parseFloat riskS
      in if isNaN rr \<or> isNaN risk then (fst ew @ [RiskRewardNotNumeric], snd ew)
         else
           let ew1 =
                 (if jle rr (Fin 0) then (fst ew @ [RiskRewardNotPositive], snd ew)
                  else if jlt rr (Fin 1) then (fst ew, snd ew @ [LowRiskReward rr])
                  else if jgt rr (Fin 10) then (fst ew, snd ew @ [VeryHighRiskReward rr])
                  else ew)
           in if jle risk (Fin 0) \<or> jgt risk (Fin 5)
              then (fst ew1, snd ew1 @ [RiskOutsideRange risk]) else ew1)"

text \<open>\<open>dateParse\<close> stands for \<^verbatim>\<open>new Date(signalTime).getTime()\<close>, which the host decides;
  \<open>now\<close> is the clock, in milliseconds.\<close>

definition validateSignalAge ::
    "(string \<Rightarrow> jsnum) \<Rightarrow> int \<Rightarrow> string \<Rightarrow> issue list \<times> issue list \<Rightarrow> issue list \<times> issue list" where
  "validateSignalAge dateParse now signalTime ew =
     (let ageHours = jdiv (jsub (Fin (of_int now)) (dateParse signalTime)) (Fin (1000 * 60 * 60))
      in if jgt ageHours (Fin 24) then (fst ew @ [SignalTooOld ageHours], snd ew)
         else if jgt ageHours (Fin 1) then (fst ew, snd ew @ [SignalAge ageHours])
         else ew)"

text \<open>\<^verbatim>\<open>validateSignalQuality\<close> reads and extends \<^verbatim>\<open>processedSignals\<close>, the set of the ids
  seen by this process.\<close>

definition validateSignalQuality ::
    "RawSignal \<Rightarrow> string \<Rightarrow> string set \<Rightarrow> issue list \<times> issue list
      \<Rightarrow> (issue list \<times> issue list) \<times> string set" where
  "validateSignalQuality s signalId processedSignals ew =
     (if signalId \<in> processedSignals
      then ((fst ew @ [SignalAlreadyProcessed signalId], snd ew), processedSignals)
      else
        let w1 = (case sig_confidence_score s of
                    None \<Rightarrow> []
                  | Some c \<Rightarrow>
                      if jlt (parseFloat c) (Fin (7 / 10)) then [LowConfidence (parseFloat c)]
                      else []);
            w2 = (if sig_signal_quality s = Some ''low'' then [LowQuality] else [])
        in ((fst ew, snd ew @ w1 @ w2), insert signalId processedSignals))"

text \<open>\<^verbatim>\<open>SignalProcessor.validateTradeSignal\<close>: the result and the set of processed ids
  after the call.\<close>

definition validateTradeSignal ::
    "(string \<Rightarrow> jsnum) \<Rightarrow> int \<Rightarrow> RawSignal \<Rightarrow> string set \<Rightarrow> ValidationResult \<times> string set" where
  "validateTradeSignal dateParse now s processedSignals =
     (let missing = map (\<lambda>(name, v). MissingRequiredField name)
                      (filter (\<lambda>(name, v). fieldMissing v) (requiredFields s))
      in if missing \<noteq> [] then
           (\<lparr>vr_isValid = False, vr_errors = missing, vr_warnings = None\<rparr>, processedSignals)
         else
           let ew1 = validateAction (the (sig_action s)) ([], []);
               ew2 = validateTimeframe (the (sig_timeframe s)) ew1;
               ew3 = validatePrices (the (sig_action s)) (the (sig_entry s))
                       (the (sig_target s)) (the (sig_stop s)) ew2;
               ew4 = validateRiskReward (the (sig_rr s)) (the (sig_risk s)) ew3;
               ew5 = validateSignalAge dateParse now (the (sig_time s)) ew4;
               (ew6, processed') =
                 validateSignalQuality s (the (sig_id s)) processedSignals ew5
           in (\<lparr>vr_isValid = (fst ew6 = []), vr_errors = fst ew6,
                vr_warnings = Some (snd ew6)\<rparr>,
               processed'))"

text \<open>
  The \<^verbatim>\<open>POST\<close> handler of the trade-signal route, for a request whose body parsed and with
  the database configured. A signal that fails validation is answered with status 400 and
  the handler returns; everything it does for a valid signal (creating or continuing the
  session, solving the stake, executing the trade, registering it overnight) is the
  parameter \<open>accept\<close>, a function on the rest of the server's state.
\<close>

datatype 'r SignalResponse =
    Rejected400 "issue list" "issue list"
  | Handled 'r

record 'w ServerState =
  processedSignals :: "string set"
  world :: 'w

definition POST_tradeSignal ::
    "(string \<Rightarrow> jsnum) \<Rightarrow> (RawSignal \<Rightarrow> 'w \<Rightarrow> 'r \<times> 'w) \<Rightarrow> int \<Rightarrow> RawSignal
      \<Rightarrow> 'w ServerState \<Rightarrow> 'r SignalResponse \<times> 'w ServerState" where
  "POST_tradeSignal dateParse accept now signalData st =
     (let (validationResult, processed') =
            validateTradeSignal dateParse now signalData (processedSignals st)
      in if \<not> vr_isValid validationResult then
           (Rejected400 (vr_errors validationResult)
              (case vr_warnings validationResult of None \<Rightarrow> [] | Some ws \<Rightarrow> ws),
            st\<lparr>processedSignals := processed'\<rparr>)
         else
           let (r, world') = accept signalData (world st)
           in (Handled r, st\<lparr>processedSignals := processed', world := world'\<rparr>))"

definition allRequiredPresent :: "RawSignal \<Rightarrow> bool" where
  "allRequiredPresent s = list_all (\<lambda>(name, v). \<not> fieldMissing v) (requiredFields s)"

text \<open>A well-formed signal, and a server that has seen nothing yet and whose world is the
  number of signals it has accepted.\<close>

definition exampleSignal :: RawSignal where
  "exampleSignal =
     \<lparr>sig_action = Some ''buy'', sig_symbol = Some ''BTCUSDT'', sig_timeframe = Some ''15'',
      sig_time = Some ''2024-01-15 12:00:00'', sig_entry = Some ''45000.00'',
      sig_target = Some ''46000.00'', sig_stop = Some ''44500.00'',
      sig_id = Some ''TEST_001'', sig_rr = Some ''2.0'', sig_risk = Some ''1.0'',
      sig_confidence_score = None, sig_signal_quality = None\<rparr>"

definition countingServer :: "nat ServerState" where
  "countingServer = \<lparr>processedSignals = {}, world = 0\<rparr>"

definition countAccepted :: "RawSignal \<Rightarrow> nat \<Rightarrow> unit \<times> nat" where
  "countAccepted s n = ((), Suc n)"

section \<open>Order execution\<close>

datatype ExecutionStatus = SUCCESS | FAILED | PENDING

text \<open>\<^verbatim>\<open>interface TradeExecution\<close> (without \<^verbatim>\<open>executed_at\<close>) and the fields of the processed
  signal that \<^verbatim>\<open>executeTrade\<close> reads.\<close>

record TradeExecution =
  te_trade_id :: string
  te_session_id :: string
  te_status :: ExecutionStatus
  platform_order_id :: "string option"
  actual_entry_price :: "jsnum option"
  actual_quantity :: "jsnum option"
  te_error :: "string option"

record ProcessedSignal =
  ps_session_id :: string
  ps_trade_id :: string
  ps_symbol :: string
  ps_action :: string
  ps_entry :: string
  ps_target :: string
  ps_stop :: string
  trade_amount :: jsnum

record ExecutionData =
  ed_symbol :: string
  ed_action :: string
  ed_entry_price :: jsnum
  ed_target_price :: jsnum
  ed_stop_price :: jsnum
  ed_trade_amount :: jsnum
  ed_quantity :: jsnum
  ed_trade_id :: string
  ed_session_id :: string

text \<open>
  \<^verbatim>\<open>validateTradeParameters\<close>. \<open>number\<close> stands for the host's \<^verbatim>\<open>Number(...)\<close> applied to a
  string. A price string is falsy when it is empty.
\<close>

definition validateTradeParameters :: "(string \<Rightarrow> jsnum) \<Rightarrow> ProcessedSignal \<Rightarrow> string list" where
  "validateTradeParameters number s =
     (let entry = number (ps_entry s); target = number (ps_target s); stop = number (ps_stop s);
          a = toLowerCase (ps_action s)
      in (if ps_entry s = [] \<or> isNaN entry then [''Invalid entry price''] else [])
         @ (if ps_target s = [] \<or> isNaN target then [''Invalid target price''] else [])
         @ (if ps_stop s = [] \<or> isNaN stop then [''Invalid stop price''] else [])
         @ (if \<not> truthy (trade_amount s) \<or> jle (trade_amount s) (Fin 0)
            then [''Invalid trade amount''] else [])
         @ (if a = ''buy'' \<or> a = ''long'' then
              (if jle target entry then [''Target must be higher than entry for buy orders'']
               else [])
              @ (if jge stop entry then [''Stop must be lower than entry for buy orders'']
                 else [])
            else if a = ''sell'' \<or> a = ''short'' then
              (if jge target entry then [''Target must be lower than entry for sell orders'']
               else [])
              @ (if jle stop entry then [''Stop must be higher than entry for sell orders'']
                 else [])
            else []))"

text \<open>\<^verbatim>\<open>Array.prototype.join(', ')\<close>.\<close>

fun joinComma :: "string list \<Rightarrow> string" where
  "joinComma [] = []"
| "joinComma [x] = x"
| "joinComma (x # y # ys) = x @ '', '' @ joinComma (y # ys)"

definition symbolMapping :: "(string \<times> string) list" where
  "symbolMapping =
     [(''BTCUSDT'', ''BTCUSDT''), (''ETHUSDT'', ''ETHUSDT''), (''ADAUSDT'', ''ADAUSDT'')]"

definition prepareExecutionData :: "(string \<Rightarrow> jsnum) \<Rightarrow> ProcessedSignal \<Rightarrow> ExecutionData" where
  "prepareExecutionData number s =
     \<lparr>ed_symbol = (case map_of symbolMapping (ps_symbol s) of
                     Some m \<Rightarrow> if m = [] then ps_symbol s else m
                   | None \<Rightarrow> ps_symbol s),
      ed_action = ps_action s,
      ed_entry_price = number (ps_entry s),
      ed_target_price = number (ps_target s),
      ed_stop_price = number (ps_stop s),
      ed_trade_amount = trade_amount s,
      ed_quantity = jdiv (trade_amount s) (number (ps_entry s)),
      ed_trade_id = ps_trade_id s,
      ed_session_id = ps_session_id s\<rparr>"

text \<open>\<^verbatim>\<open>isRetryableError\<close>, on the message of the error.\<close>

definition retryableErrors :: "string list" where
  "retryableErrors =
     [''network'', ''timeout'', ''connection'', ''temporary'', ''rate limit'',
      ''server error'', ''gateway'', ''service unavailable'']"

definition isRetryableError :: "string \<Rightarrow> bool" where
  "isRetryableError message =
     list_ex (\<lambda>retryableError. str_includes (toLowerCase message) retryableError)
       retryableErrors"

text \<open>
  \<^verbatim>\<open>ExceptionHandler.handlePartialFill\<close>: the \<^verbatim>\<open>UPDATE\<close> sets \<^verbatim>\<open>stake_value\<close> on the
  \<^verbatim>\<open>EXECUTE\<close> step of the session with the greatest step number; with no such step it
  changes no row.
\<close>

definition isExecuteStepOf :: "string \<Rightarrow> StepRow \<Rightarrow> bool" where
  "isExecuteStepOf sessionId s = (step_session_id s = sessionId \<and> step_type s = ''EXECUTE'')"

definition handlePartialFill :: "string \<Rightarrow> jsnum \<Rightarrow> jsnum \<Rightarrow> Database \<Rightarrow> Database" where
  "handlePartialFill sessionId originalAmount filledAmount db =
     (let executeSteps = filter (isExecuteStepOf sessionId) (session_steps db)
      in if executeSteps = [] then db
         else
           let latest = fold max (map step_number executeSteps) 0
           in db\<lparr>session_steps :=
                   map (\<lambda>s. if isExecuteStepOf sessionId s \<and> step_number s = latest
                             then s\<lparr>stake_value := Some filledAmount\<rparr> else s)
                     (session_steps db)\<rparr>)"

definition recordExecutionStep :: "string \<Rightarrow> TradeExecution \<Rightarrow> Database \<Rightarrow> Database" where
  "recordExecutionStep sessionId execution db =
     db\<lparr>session_steps := session_steps db @
          [\<lparr>step_session_id = sessionId,
            step_number = nextStepNumber db sessionId,
            node_name = ''EXECUTE'',
            action = Some (if te_status execution = SUCCESS then ''execute'' else ''failed''),
            stake_value = Some (Fin 0), stake_result = None,
            step_type = ''EXECUTE'',
            execution_status =
              Some (case te_status execution of
                      SUCCESS \<Rightarrow> ''SUCCESS'' | FAILED \<Rightarrow> ''FAILED'' | PENDING \<Rightarrow> ''PENDING''),
            trade_result_actual = None\<rparr>]\<rparr>"

text \<open>
  One pass through the body of the \<^verbatim>\<open>try\<close>. \<open>platform attempt data\<close> is what
  \<^verbatim>\<open>executeTradeWithTimeout\<close> does on that attempt: it returns an execution (\<open>Inr\<close>) or
  throws an error with a message (\<open>Inl\<close>). The result is \<open>Inl\<close> of the message of whatever
  was thrown, or the execution and the database after the partial-fill update and the
  recording of the step, in that order.
\<close>

definition attemptOnce ::
    "(string \<Rightarrow> jsnum) \<Rightarrow> (nat \<Rightarrow> ExecutionData \<Rightarrow> string + TradeExecution) \<Rightarrow> ProcessedSignal
      \<Rightarrow> nat \<Rightarrow> Database \<Rightarrow> string + TradeExecution \<times> Database" where
  "attemptOnce number platform processedSignal attempt db =
     (let errs = validateTradeParameters number processedSignal
      in if errs \<noteq> [] then Inl (''Invalid trade parameters: '' @ joinComma errs)
         else
           case platform attempt (prepareExecutionData number processedSignal) of
             Inl message \<Rightarrow> Inl message
           | Inr executionResult \<Rightarrow>
               let db1 =
                     (case actual_quantity executionResult of
                        None \<Rightarrow> db
                      | Some quantity \<Rightarrow>
                          if te_status executionResult = SUCCESS \<and> truthy quantity then
                            let originalAmount = trade_amount processedSignal;
                                price = (case actual_entry_price executionResult of
                                           None \<Rightarrow> parseFloat (ps_entry processedSignal)
                                         | Some p \<Rightarrow>
                                             if truthy p then p
                                             else parseFloat (ps_entry processedSignal));
                                filledAmount = jmul quantity price
                            in if jgt (jdiv (Math_abs (jsub filledAmount originalAmount))
                                         originalAmount) (Fin (1 / 100))
                               then handlePartialFill (ps_session_id processedSignal)
                                      originalAmount filledAmount db
                               else db
                          else db)
               in Inr (executionResult,
                       recordExecutionStep (ps_session_id processedSignal) executionResult db1))"

definition maxRetries :: nat where
  "maxRetries = 3"

definition retryDelay :: nat where
  "retryDelay = 5000"

text \<open>The execution returned when the loop ends by an error;
  \<^verbatim>\<open>lastError?.message || 'Unknown error after all retries'\<close>.\<close>

definition failedExecution :: "ProcessedSignal \<Rightarrow> string option \<Rightarrow> TradeExecution" where
  "failedExecution processedSignal lastError =
     \<lparr>te_trade_id = ps_trade_id processedSignal,
      te_session_id = ps_session_id processedSignal,
      te_status = FAILED,
      platform_order_id = None, actual_entry_price = None, actual_quantity = None,
      te_error = Some (case lastError of
                         None \<Rightarrow> ''Unknown error after all retries''
                       | Some m \<Rightarrow> if m = [] then ''Unknown error after all retries'' else m)\<rparr>"

text \<open>
  The \<^verbatim>\<open>for\<close> loop of \<^verbatim>\<open>executeTrade\<close> from a given attempt on, and what follows it. The
  result is the execution returned, the delays slept (milliseconds, in order) and the
  database.
\<close>

function executeFrom ::
    "(string \<Rightarrow> jsnum) \<Rightarrow> (nat \<Rightarrow> ExecutionData \<Rightarrow> string + TradeExecution) \<Rightarrow> ProcessedSignal
      \<Rightarrow> nat \<Rightarrow> string option \<Rightarrow> nat list \<Rightarrow> Database \<Rightarrow> TradeExecution \<times> nat list \<times> Database" where
  "executeFrom number platform processedSignal attempt lastError delays db =
     (if attempt \<le> maxRetries then
        (case attemptOnce number platform processedSignal attempt db of
           Inr (executionResult, db') \<Rightarrow> (executionResult, delays, db')
         | Inl message \<Rightarrow>
             if \<not> isRetryableError message \<or> attempt = maxRetries then
               (failedExecution processedSignal (Some message), delays,
                recordExecutionStep (ps_session_id processedSignal)
                  (failedExecution processedSignal (Some message)) db)
             else
               executeFrom number platform processedSignal (attempt + 1) (Some message)
                 (delays @ [retryDelay * 2 ^ (attempt - 1)]) db)
      else
        (failedExecution processedSignal lastError, delays,
         recordExecutionStep (ps_session_id processedSignal)
           (failedExecution processedSignal lastError) db))"
  by pat_completeness auto
termination
  by (relation "measure (\<lambda>(number, platform, s, attempt, lastError, delays, db).
        Suc maxRetries - attempt)") auto

declare executeFrom.simps [simp del]

definition executeTrade ::
    "(string \<Rightarrow> jsnum) \<Rightarrow> (nat \<Rightarrow> ExecutionData \<Rightarrow> string + TradeExecution) \<Rightarrow> ProcessedSignal
      \<Rightarrow> Database \<Rightarrow> TradeExecution \<times> nat list \<times> Database" where
  "executeTrade number platform processedSignal db =
     executeFrom number platform processedSignal 1 None [] db"

text \<open>Concrete inputs: an order of 1000 at 45000; a platform whose every attempt throws the
  given message; a platform that fills three quarters of the quantity asked for, at the
  entry price.\<close>

definition orderSignal :: ProcessedSignal where
  "orderSignal =
     \<lparr>ps_session_id = ''s1'', ps_trade_id = ''t1'', ps_symbol = ''BTCUSDT'', ps_action = ''buy'',
      ps_entry = ''45000.00'', ps_target = ''46000.00'', ps_stop = ''44500.00'',
      trade_amount = Fin 1000\<rparr>"

definition failingPlatform :: "string \<Rightarrow> nat \<Rightarrow> ExecutionData \<Rightarrow> string + TradeExecution" where
  "failingPlatform message attempt executionData = Inl message"

definition partialPlatform :: "nat \<Rightarrow> ExecutionData \<Rightarrow> string + TradeExecution" where
  "partialPlatform attempt executionData =
     Inr \<lparr>te_trade_id = ed_trade_id executionData,
          te_session_id = ed_session_id executionData,
          te_status = SUCCESS,
          platform_order_id = Some ''demo_1'',
          actual_entry_price = Some (ed_entry_price executionData),
          actual_quantity = Some (jmul (ed_quantity executionData) (Fin (3 / 4))),
          te_error = None\<rparr>"

definition partialExecution :: TradeExecution where
  "partialExecution =
     \<lparr>te_trade_id = ''t1'', te_session_id = ''s1'', te_status = SUCCESS,
      platform_order_id = Some ''demo_1'', actual_entry_price = Some (Fin 45000),
      actual_quantity = Some (Fin (1 / 60)), te_error = None\<rparr>"

text \<open>A platform that throws the given messages on its first attempts, one for each, and
  from then on fills as \<open>partialPlatform\<close> does.\<close>

definition scriptedPlatform :: "string list \<Rightarrow> nat \<Rightarrow> ExecutionData \<Rightarrow> string + TradeExecution" where
  "scriptedPlatform messages attempt executionData =
     (if 1 \<le> attempt \<and> attempt \<le> length messages then Inl (messages ! (attempt - 1))
      else partialPlatform attempt executionData)"

section \<open>Broker costs and the stake solver\<close>

text \<open>
  The fields of \<^verbatim>\<open>BrokerCostConfig\<close> and \<^verbatim>\<open>RealTimeCostData\<close> that the cost functions read.
  \<^verbatim>\<open>getRealTimeCostData\<close> draws the spread at random and caches it for 30 seconds, so the
  cost data is a parameter here, the same for every call within one run of the solver.
\<close>

datatype CommissionType = CommissionFixed | CommissionPercentage | CommissionPerLot

record BrokerCostConfig =
  commissionType :: CommissionType
  commissionValue :: jsnum
  minCommission :: jsnum
  maxCommission :: jsnum
  defaultSpread :: jsnum
  maxAllowedSpread :: jsnum
  spreadMultiplier :: jsnum
  longSwapRate :: jsnum
  maxSpreadToSL :: jsnum

record RealTimeCostData =
  currentSpread :: jsnum
  spreadToSL :: jsnum
  effectiveSLDistance :: jsnum
  cd_isWithinLimits :: bool

definition demoConfig :: BrokerCostConfig where
  "demoConfig =
     \<lparr>commissionType = CommissionFixed, commissionValue = Fin 5, minCommission = Fin 5,
      maxCommission = Fin 5, defaultSpread = Fin 3, maxAllowedSpread = Fin 10,
      spreadMultiplier = Fin (3 / 2), longSwapRate = Fin 0, maxSpreadToSL = Fin 5\<rparr>"

text \<open>Cost data the demo configuration can produce: the default spread of 3 pips and a
  spread to the stop of 3 times 1.5.\<close>

definition demoCostData :: RealTimeCostData where
  "demoCostData =
     \<lparr>currentSpread = Fin 3, spreadToSL = Fin (9 / 2), effectiveSLDistance = Fin (9 / 2),
      cd_isWithinLimits = True\<rparr>"

definition calculateCommission :: "BrokerCostConfig \<Rightarrow> jsnum \<Rightarrow> jsnum \<Rightarrow> jsnum" where
  "calculateCommission config amount price =
     (case commissionType config of
        CommissionFixed \<Rightarrow>
          Math_max (minCommission config) (Math_min (maxCommission config) (commissionValue config))
      | CommissionPercentage \<Rightarrow>
          Math_max (minCommission config)
            (Math_min (maxCommission config)
               (jdiv (jmul amount (commissionValue config)) (Fin 100)))
      | CommissionPerLot \<Rightarrow>
          Math_max (minCommission config)
            (Math_min (maxCommission config)
               (jmul (jdiv amount (jmul price (Fin 100000))) (commissionValue config))))"

definition calculateSpreadCost :: "jsnum \<Rightarrow> jsnum \<Rightarrow> jsnum \<Rightarrow> jsnum" where
  "calculateSpreadCost amount spread price =
     (let spreadInPrice = jmul (jdiv spread (Fin 10000)) price
      in jmul amount (jdiv spreadInPrice price))"

definition calculateSwapCost :: "BrokerCostConfig \<Rightarrow> jsnum \<Rightarrow> jsnum \<Rightarrow> jsnum \<Rightarrow> jsnum" where
  "calculateSwapCost config amount price days =
     (let lots = jdiv amount (jmul price (Fin 100000));
          swapRate = longSwapRate config
      in jmul (jmul lots swapRate) days)"

definition calculateMaxAllowedStake :: "jsnum \<Rightarrow> RealTimeCostData \<Rightarrow> jsnum" where
  "calculateMaxAllowedStake nominalAmount costData =
     (let maxRiskPercentage = Fin (1 / 100);
          adjustedSLDistance = jadd (effectiveSLDistance costData) (spreadToSL costData);
          maxStake = jdiv (jmul nominalAmount maxRiskPercentage)
                       (jdiv adjustedSLDistance (Fin 10000))
      in Math_min maxStake (jmul nominalAmount (Fin (1 / 10))))"

text \<open>\<^verbatim>\<open>CostCalculationResult\<close>, without the copies of its fields under \<^verbatim>\<open>costBreakdown\<close> and
  the message lists; \<^verbatim>\<open>riskAdjustments.adjustedStake\<close> is \<^verbatim>\<open>netAmount\<close>.\<close>

record CostCalculationResult =
  nominalAmount :: jsnum
  cr_commission :: jsnum
  cr_spreadCost :: jsnum
  cr_swapCost :: jsnum
  cr_totalCosts :: jsnum
  netAmount :: jsnum
  maxAllowedStake :: jsnum
  cr_isWithinLimits :: bool

definition calculateTradeCosts ::
    "BrokerCostConfig \<Rightarrow> RealTimeCostData \<Rightarrow> jsnum \<Rightarrow> jsnum \<Rightarrow> jsnum \<Rightarrow> jsnum
      \<Rightarrow> CostCalculationResult" where
  "calculateTradeCosts config costData nominal entryPrice targetPrice targetNetProfit =
     (let commission = calculateCommission config nominal entryPrice;
          spreadCost = calculateSpreadCost nominal (currentSpread costData) entryPrice;
          swapCost = calculateSwapCost config nominal entryPrice (Fin 1);
          totalCosts = jadd (jadd commission spreadCost) swapCost;
          requiredGrossProfit = jadd targetNetProfit totalCosts;
          priceDifference = Math_abs (jsub targetPrice entryPrice);
          requiredStake = jdiv requiredGrossProfit (jdiv priceDifference entryPrice);
          maxAllowed = calculateMaxAllowedStake nominal costData;
          adjustedStake = Math_min requiredStake maxAllowed;
          finalCommission = calculateCommission config adjustedStake entryPrice;
          finalSpreadCost = calculateSpreadCost adjustedStake (currentSpread costData) entryPrice;
          finalSwapCost = calculateSwapCost config adjustedStake entryPrice (Fin 1);
          finalTotalCosts = jadd (jadd finalCommission finalSpreadCost) finalSwapCost
      in \<lparr>nominalAmount = nominal, cr_commission = finalCommission,
          cr_spreadCost = finalSpreadCost, cr_swapCost = finalSwapCost,
          cr_totalCosts = finalTotalCosts, netAmount = adjustedStake,
          maxAllowedStake = maxAllowed,
          cr_isWithinLimits = (cd_isWithinLimits costData \<and> jle adjustedStake maxAllowed)\<rparr>)"

text \<open>
  The result of \<^verbatim>\<open>adjustStakeForNetProfit\<close>, and the place where the function returned: from
  inside the loop after the logged number of iterations, after the \<^verbatim>\<open>break\<close> at the cap, or
  after the loop ran out of iterations. The stop price is passed on but never read, and is
  left out.
\<close>

record StakeAdjustment =
  adjustedStake :: jsnum
  expectedNetProfit :: jsnum
  sa_totalCosts :: jsnum

datatype SolverExit = Converged nat | Capped | Exhausted

definition maxIterations :: nat where
  "maxIterations = 10"

definition tolerance :: jsnum where
  "tolerance = Fin (1 / 100)"

text \<open>The statements after the loop (\<^verbatim>\<open>// Final calculation\<close>).\<close>

definition finalCalculation ::
    "BrokerCostConfig \<Rightarrow> RealTimeCostData \<Rightarrow> jsnum \<Rightarrow> jsnum \<Rightarrow> jsnum \<Rightarrow> jsnum \<Rightarrow> StakeAdjustment" where
  "finalCalculation config costData targetNetProfit entryPrice targetPrice currentStake =
     (let finalCostResult =
            calculateTradeCosts config costData currentStake entryPrice targetPrice targetNetProfit
      in \<lparr>adjustedStake = netAmount finalCostResult,
          expectedNetProfit = targetNetProfit,
          sa_totalCosts = cr_totalCosts finalCostResult\<rparr>)"

text \<open>\<^verbatim>\<open>actualNetProfit\<close> as an iteration computes it from the cost result.\<close>

definition actualNetProfitOf :: "CostCalculationResult \<Rightarrow> jsnum \<Rightarrow> jsnum \<Rightarrow> jsnum" where
  "actualNetProfitOf costResult entryPrice targetPrice =
     jsub (jmul (netAmount costResult) (jdiv (Math_abs (jsub targetPrice entryPrice)) entryPrice))
       (cr_totalCosts costResult)"

function solveFrom ::
    "BrokerCostConfig \<Rightarrow> RealTimeCostData \<Rightarrow> jsnum \<Rightarrow> jsnum \<Rightarrow> jsnum \<Rightarrow> jsnum \<Rightarrow> nat \<Rightarrow> jsnum
      \<Rightarrow> SolverExit \<times> StakeAdjustment" where
  "solveFrom config costData targetNetProfit entryPrice targetPrice maxRiskAmount iterations
       currentStake =
     (if iterations < maxIterations then
        let costResult =
              calculateTradeCosts config costData currentStake entryPrice targetPrice
                targetNetProfit;
            actualNetProfit = actualNetProfitOf costResult entryPrice targetPrice;
            difference = Math_abs (jsub actualNetProfit targetNetProfit)
        in if jle difference tolerance then
             (Converged iterations,
              \<lparr>adjustedStake = netAmount costResult,
               expectedNetProfit = actualNetProfit,
               sa_totalCosts = cr_totalCosts costResult\<rparr>)
           else
             let adjustmentFactor = jdiv targetNetProfit actualNetProfit;
                 scaled = jmul currentStake adjustmentFactor
             in if jgt scaled maxRiskAmount then
                  (Capped,
                   finalCalculation config costData targetNetProfit entryPrice targetPrice
                     maxRiskAmount)
                else
                  solveFrom config costData targetNetProfit entryPrice targetPrice
                    maxRiskAmount (iterations + 1) scaled
      else
        (Exhausted,
         finalCalculation config costData targetNetProfit entryPrice targetPrice currentStake))"
  by pat_completeness auto
termination
  by (relation "measure (\<lambda>(config, costData, t, e, p, m, iterations, s).
        maxIterations - iterations)") auto

declare solveFrom.simps [simp del]

definition adjustStakeForNetProfit ::
    "BrokerCostConfig \<Rightarrow> RealTimeCostData \<Rightarrow> jsnum \<Rightarrow> jsnum \<Rightarrow> jsnum \<Rightarrow> jsnum
      \<Rightarrow> SolverExit \<times> StakeAdjustment" where
  "adjustStakeForNetProfit config costData targetNetProfit entryPrice targetPrice maxRiskAmount =
     solveFrom config costData targetNetProfit entryPrice targetPrice maxRiskAmount 0
       (jdiv targetNetProfit (Fin (1 / 100)))"

text \<open>The net profit of a trade of a given stake: the gross profit of the price move less
  the commission, spread and swap costs at that stake.\<close>

definition tradeCostsAt :: "BrokerCostConfig \<Rightarrow> RealTimeCostData \<Rightarrow> jsnum \<Rightarrow> jsnum \<Rightarrow> jsnum" where
  "tradeCostsAt config costData stake entryPrice =
     jadd (jadd (calculateCommission config stake entryPrice)
                (calculateSpreadCost stake (currentSpread costData) entryPrice))
          (calculateSwapCost config stake entryPrice (Fin 1))"

definition netProfitAt ::
    "BrokerCostConfig \<Rightarrow> RealTimeCostData \<Rightarrow> jsnum \<Rightarrow> jsnum \<Rightarrow> jsnum \<Rightarrow> jsnum" where
  "netProfitAt config costData stake entryPrice targetPrice =
     jsub (jmul stake (jdiv (Math_abs (jsub targetPrice entryPrice)) entryPrice))
       (tradeCostsAt config costData stake entryPrice)"

text \<open>The stake an iteration that neither converges nor hits the cap passes to the next
  one: the current stake times \<^verbatim>\<open>targetNetProfit / actualNetProfit\<close>.\<close>

definition scaleStake ::
    "BrokerCostConfig \<Rightarrow> RealTimeCostData \<Rightarrow> jsnum \<Rightarrow> jsnum \<Rightarrow> jsnum \<Rightarrow> jsnum \<Rightarrow> jsnum" where
  "scaleStake config costData targetNetProfit entryPrice targetPrice currentStake =
     jmul currentStake
       (jdiv targetNetProfit
          (actualNetProfitOf
             (calculateTradeCosts config costData currentStake entryPrice targetPrice
                targetNetProfit)
             entryPrice targetPrice))"

section \<open>Stake amounts\<close>





text \<open>Every stake percentage of the decision tree has the shape the theorem below asks for.\<close>

lemma tree_values_signed_digit:
  "list_all (\<lambda>(k, n). startsWithSignedDigit (node_value n)) decisionTreeEntries"
  by (simp add: decisionTreeEntries_def mkNode_def mkFinal_def startsWithSignedDigit_def
      isDigit_def)





section \<open>Node-jump validation\<close>




text \<open>Every loss edge of the tree passes the webhook's validator.\<close>

lemma loss_edges_pass:
  assumes "decisionTree c = Some node" and "loss node = Some n"
  shows "isValid (validateNodeJump c n)"
proof -
  from assms(1) have "(c, node) \<in> set decisionTreeEntries"
    unfolding decisionTree_def by (rule map_of_SomeD)
  with assms(2) show ?thesis
    by (auto simp: decisionTreeEntries_def mkNode_def mkFinal_def
      validateNodeJump_def nodeNumber_def isDigit_def digitVal_def)
qed

section \<open>Applying an outcome\<close>

text \<open>
  Claim C5 asks that the update which moves a session to a terminal node also marks it
  completed. The webhook tests \<^verbatim>\<open>final\<close> of the node the session leaves, not of the node it
  enters. Six losses take a fresh session from \<^verbatim>\<open>Start\<close> to \<^verbatim>\<open>LOST\<close>, a final node of the
  tree, and the sixth update stores \<^verbatim>\<open>is_completed = false\<close>; a seventh outcome is then
  accepted, moves the session to \<^verbatim>\<open>End\<close> and changes the total once more.
\<close>

theorem terminal_move_leaves_session_open:
  "map_option final (decisionTree ''LOST'') = Some True
   \<and> map (\<lambda>r. (current_node r, is_completed r, final_total r))
         (sessions (applyOutcomes (replicate 5 lossCallback) freshSession)) =
       [(''0-5'', False, Fin (- 3250))]
   \<and> fst (processTradeResult lossCallback
         (applyOutcomes (replicate 5 lossCallback) freshSession)) =
       Success ''Trade result processed successfully. LOSS - Moving to next level''
         \<lparr>rd_session_id = ''s1'', rd_current_node = ''LOST'', rd_final_total = Fin (- 3900),
          rd_is_completed = False, rd_next_action = ''LOSS - Moving to next level''\<rparr>
   \<and> map (\<lambda>r. (current_node r, is_completed r, final_total r))
         (sessions (applyOutcomes (replicate 6 lossCallback) freshSession)) =
       [(''LOST'', False, Fin (- 3900))]
   \<and> map (\<lambda>r. (current_node r, is_completed r, final_total r))
         (sessions (applyOutcomes (replicate 7 lossCallback) freshSession)) =
       [(''End'', True, Fin (- 4550))]"
  by code_simp
















section \<open>The overnight scan\<close>

text \<open>
  Claim C2 says that a scan past the cutoff force-closes every active, enabled
  registration and rolls its session back. A scan a full day after the registration leaves
  the trade active, in the map and in the table, and the session at \<^verbatim>\<open>0-1\<close>, not at the
  previous node \<^verbatim>\<open>Start\<close> stored with the registration; it only logs the trade. The
  same holds for a trade kept in memory only.
\<close>

theorem overnight_scan_closes_nothing_counterexample:
  "map (\<lambda>t. (ts_trade_id t, overnightCloseEnabled t)) (getActiveTrades overnightExample)
     = [(''t1'', True)]
   \<and> map (\<lambda>r. (ot_previous_node r, ot_status r)) (overnight_trades overnightExample)
     = [(Some ''Start'', Active)]
   \<and> snd (checkOvernightTrades (24 * 60 * 60 * 1000) overnightExample) = [''t1'']
   \<and> map (\<lambda>t. (ts_trade_id t, ts_status t))
        (getActiveTrades (fst (checkOvernightTrades (24 * 60 * 60 * 1000) overnightExample)))
     = [(''t1'', Active)]
   \<and> map ot_status
        (overnight_trades (fst (checkOvernightTrades (24 * 60 * 60 * 1000) overnightExample)))
     = [Active]
   \<and> map current_node
        (ow_sessions (fst (checkOvernightTrades (24 * 60 * 60 * 1000) overnightExample)))
     = [''0-1'']
   \<and> map (\<lambda>t. (ts_trade_id t, overnightCloseEnabled t))
        (getActiveTrades overnightMemoryExample) = [(''t1'', True)]
   \<and> map (\<lambda>t. (ts_trade_id t, ts_status t))
        (getActiveTrades (fst (checkOvernightTrades (24 * 60 * 60 * 1000)
           overnightMemoryExample)))
     = [(''t1'', Active)]"
  by code_simp

text \<open>
  Claim C2, amended. An overnight scan, at whatever time, closes no trade and rolls no
  session back: the manager's map, the table of registrations and the sessions are after
  the scan what they were before it, so every registration that was active still is. The
  scan only names, in its log, the active enabled trades open for more than 16 hours.
\<close>

theorem overnight_scan_changes_nothing:
  "fst (checkOvernightTrades now w) = w
   \<and> getActiveTrades (fst (checkOvernightTrades now w)) = getActiveTrades w
   \<and> overnight_trades (fst (checkOvernightTrades now w)) = overnight_trades w
   \<and> ow_sessions (fst (checkOvernightTrades now w)) = ow_sessions w
   \<and> snd (checkOvernightTrades now w) =
       map ts_trade_id
         (filter (\<lambda>trade. overnightCloseEnabled trade \<and> 16 < hoursOpen now trade)
            (getActiveTrades w))"
  by (simp add: checkOvernightTrades_def)

theorem overnight_scan_changes_nothing_witness:
  "fst (checkOvernightTrades (24 * 60 * 60 * 1000) overnightExample) = overnightExample
   \<and> map ts_trade_id (getActiveTrades overnightExample) = [''t1'']"
proof -
  have "map ts_trade_id (getActiveTrades overnightExample) = [''t1'']" by code_simp
  with overnight_scan_changes_nothing[of "24 * 60 * 60 * 1000" overnightExample]
  show ?thesis by blast
qed

section \<open>Duplicate signals\<close>

lemma missing_empty_iff:
  "(filter (\<lambda>(name, v). fieldMissing v) (requiredFields s) = []) = allRequiredPresent s"
  by (auto simp: allRequiredPresent_def list_all_iff filter_empty_conv)

lemma validateSignalQuality_seen:
  assumes "i \<in> ps"
  shows "validateSignalQuality s i ps ew = ((fst ew @ [SignalAlreadyProcessed i], snd ew), ps)"
  using assms by (simp add: validateSignalQuality_def)

lemma validateSignalQuality_adds: "i \<in> snd (validateSignalQuality s i ps ew)"
  by (simp add: validateSignalQuality_def Let_def)

lemma validate_duplicate:
  assumes "allRequiredPresent s" and "sig_id s = Some i" and "i \<in> ps"
  shows "\<not> vr_isValid (fst (validateTradeSignal dp now s ps))
         \<and> SignalAlreadyProcessed i \<in> set (vr_errors (fst (validateTradeSignal dp now s ps)))
         \<and> snd (validateTradeSignal dp now s ps) = ps"
  using assms
  by (simp add: validateTradeSignal_def missing_empty_iff Let_def validateSignalQuality_seen)

lemma validate_marks_processed:
  assumes "allRequiredPresent s" and "sig_id s = Some i"
  shows "i \<in> snd (validateTradeSignal dp now s ps)"
proof -
  have "snd (validateTradeSignal dp now s ps) =
        snd (validateSignalQuality s i ps
          (validateSignalAge dp now (the (sig_time s))
            (validateRiskReward (the (sig_rr s)) (the (sig_risk s))
              (validatePrices (the (sig_action s)) (the (sig_entry s)) (the (sig_target s))
                 (the (sig_stop s))
                (validateTimeframe (the (sig_timeframe s))
                  (validateAction (the (sig_action s)) ([], [])))))))"
    using assms by (simp add: validateTradeSignal_def missing_empty_iff Let_def split: prod.splits)
  then show ?thesis by (simp add: validateSignalQuality_adds)
qed

lemma validate_incomplete:
  assumes "\<not> allRequiredPresent s"
  shows "\<not> vr_isValid (fst (validateTradeSignal dp now s ps))
         \<and> snd (validateTradeSignal dp now s ps) = ps"
  using assms by (simp add: validateTradeSignal_def missing_empty_iff Let_def)

lemma POST_invalid:
  assumes "\<not> vr_isValid (fst (validateTradeSignal dp now s (processedSignals st)))"
  shows "fst (POST_tradeSignal dp accept now s st) =
           Rejected400 (vr_errors (fst (validateTradeSignal dp now s (processedSignals st))))
             (case vr_warnings (fst (validateTradeSignal dp now s (processedSignals st))) of
                None \<Rightarrow> [] | Some ws \<Rightarrow> ws)
         \<and> world (snd (POST_tradeSignal dp accept now s st)) = world st
         \<and> processedSignals (snd (POST_tradeSignal dp accept now s st)) =
             snd (validateTradeSignal dp now s (processedSignals st))"
  using assms
  by (cases "validateTradeSignal dp now s (processedSignals st)")
     (simp add: POST_tradeSignal_def Let_def)

lemma POST_processed:
  "processedSignals (snd (POST_tradeSignal dp accept now s st)) =
             snd (validateTradeSignal dp now s (processedSignals st))"
  by (cases "validateTradeSignal dp now s (processedSignals st)")
     (simp add: POST_tradeSignal_def Let_def split: prod.splits)

text \<open>
  Claim C7. Within one server process, a signal whose id has been processed is answered
  with a rejection and changes nothing outside the validator: whatever the rest of the
  payload, the handler returns status 400 and leaves the world as it was, and when the
  required fields are present the errors name the id as already processed. So delivering
  the same well-formed signal twice handles it once: after the first delivery the id is in
  the processed set, the second is rejected as a duplicate, and the server's state after
  the second delivery is its state after the first (the same sessions, the same steps).
\<close>

theorem duplicate_signal_rejected:
  assumes "sig_id s = Some i"
  shows "(i \<in> processedSignals st \<longrightarrow>
            (\<exists>es ws. fst (POST_tradeSignal dp accept now s st) = Rejected400 es ws
                \<and> (allRequiredPresent s \<longrightarrow> SignalAlreadyProcessed i \<in> set es))
            \<and> world (snd (POST_tradeSignal dp accept now s st)) = world st)
     \<and> (allRequiredPresent s \<longrightarrow>
            i \<in> processedSignals (snd (POST_tradeSignal dp accept now1 s st0))
            \<and> (\<exists>es ws. fst (POST_tradeSignal dp accept now2 s
                       (snd (POST_tradeSignal dp accept now1 s st0))) = Rejected400 es ws
                \<and> SignalAlreadyProcessed i \<in> set es)
            \<and> snd (POST_tradeSignal dp accept now2 s (snd (POST_tradeSignal dp accept now1 s st0)))
                = snd (POST_tradeSignal dp accept now1 s st0))"
proof (intro conjI impI)
  assume seen: "i \<in> processedSignals st"
  have inv: "\<not> vr_isValid (fst (validateTradeSignal dp now s (processedSignals st)))"
    using validate_duplicate[OF _ assms seen, of dp now] validate_incomplete[of s dp now]
    by blast
  note p = POST_invalid[OF inv, of accept]
  from p show "world (snd (POST_tradeSignal dp accept now s st)) = world st" by blast
  from p validate_duplicate[OF _ assms seen, of dp now]
  show "\<exists>es ws. fst (POST_tradeSignal dp accept now s st) = Rejected400 es ws
          \<and> (allRequiredPresent s \<longrightarrow> SignalAlreadyProcessed i \<in> set es)"
    by metis
next
  assume present: "allRequiredPresent s"
  let ?st1 = "snd (POST_tradeSignal dp accept now1 s st0)"
  show in1: "i \<in> processedSignals ?st1"
    using validate_marks_processed[OF present assms] by (simp add: POST_processed)
  note d = validate_duplicate[OF present assms in1, of dp now2]
  from d have inv: "\<not> vr_isValid (fst (validateTradeSignal dp now2 s (processedSignals ?st1)))"
    by blast
  note p = POST_invalid[OF inv, of accept]
  from p d show "\<exists>es ws. fst (POST_tradeSignal dp accept now2 s ?st1) = Rejected400 es ws
                \<and> SignalAlreadyProcessed i \<in> set es" by metis
  show "snd (POST_tradeSignal dp accept now2 s ?st1) = ?st1"
    using p d by (simp add: ServerState.equality)
qed

lemma parseFloat_example_fields:
  "parseFloat ''45000.00'' = Fin 45000" "parseFloat ''46000.00'' = Fin 46000"
  "parseFloat ''44500.00'' = Fin 44500" "parseFloat ''2.0'' = Fin 2" "parseFloat ''1.0'' = Fin 1"
  by (simp_all add: parseFloat_def isWhite_def isDigit_def digitVal_def
      exponentOf_def scale10_def Let_def)

lemma validate_exampleSignal:
  "validateTradeSignal (\<lambda>t. Fin 0) 0 exampleSignal {} =
     (\<lparr>vr_isValid = True, vr_errors = [],
       vr_warnings = Some [TimeframeNormalized ''15'' ''15m'']\<rparr>, {''TEST_001''})"
  by (simp add: validateTradeSignal_def requiredFields_def exampleSignal_def fieldMissing_def
      validateAction_def toLowerCase_def lowerChar_def validateTimeframe_def timeframeMap_def
      validatePrices_def parseFloat_example_fields jge_def jlt_def jsub_def
      validateRiskReward_def validateSignalAge_def validateSignalQuality_def Let_def)

theorem duplicate_signal_rejected_witness:
  "sig_id exampleSignal = Some ''TEST_001'' \<and> allRequiredPresent exampleSignal
   \<and> fst (POST_tradeSignal (\<lambda>t. Fin 0) countAccepted 0 exampleSignal countingServer) = Handled ()
   \<and> world (snd (POST_tradeSignal (\<lambda>t. Fin 0) countAccepted 0 exampleSignal countingServer)) = 1
   \<and> ''TEST_001'' \<in> processedSignals
        (snd (POST_tradeSignal (\<lambda>t. Fin 0) countAccepted 0 exampleSignal countingServer))
   \<and> (\<exists>es ws. fst (POST_tradeSignal (\<lambda>t. Fin 0) countAccepted 5000 exampleSignal
                 (snd (POST_tradeSignal (\<lambda>t. Fin 0) countAccepted 0 exampleSignal countingServer)))
               = Rejected400 es ws
          \<and> SignalAlreadyProcessed ''TEST_001'' \<in> set es)
   \<and> world (snd (POST_tradeSignal (\<lambda>t. Fin 0) countAccepted 5000 exampleSignal
                 (snd (POST_tradeSignal (\<lambda>t. Fin 0) countAccepted 0 exampleSignal countingServer))))
       = 1
   \<and> ''TEST_001'' \<in> processedSignals \<lparr>processedSignals = {''TEST_001''}, world = (7::nat)\<rparr>
   \<and> (\<exists>es ws. fst (POST_tradeSignal (\<lambda>t. Fin 0) countAccepted 0 exampleSignal
                 \<lparr>processedSignals = {''TEST_001''}, world = (7::nat)\<rparr>)
               = Rejected400 es ws
          \<and> SignalAlreadyProcessed ''TEST_001'' \<in> set es)
   \<and> world (snd (POST_tradeSignal (\<lambda>t. Fin 0) countAccepted 0 exampleSignal
                 \<lparr>processedSignals = {''TEST_001''}, world = (7::nat)\<rparr>))
       = 7"
proof -
  have i: "sig_id exampleSignal = Some ''TEST_001''" by (simp add: exampleSignal_def)
  have a: "allRequiredPresent exampleSignal"
    by (simp add: allRequiredPresent_def requiredFields_def exampleSignal_def fieldMissing_def)
  have h: "fst (POST_tradeSignal (\<lambda>t. Fin 0) countAccepted 0 exampleSignal countingServer)
             = Handled ()"
    by (simp add: POST_tradeSignal_def countingServer_def validate_exampleSignal
        countAccepted_def)
  have w: "world (snd (POST_tradeSignal (\<lambda>t. Fin 0) countAccepted 0 exampleSignal
             countingServer)) = 1"
    by (simp add: POST_tradeSignal_def countingServer_def validate_exampleSignal
        countAccepted_def)
  note t = duplicate_signal_rejected[OF i,
             of "\<lparr>processedSignals = {''TEST_001''}, world = (7::nat)\<rparr>"
                "\<lambda>t. Fin 0" countAccepted 0 0 countingServer 5000]
  from t a i h w show ?thesis by simp
qed

section \<open>Order execution\<close>

lemma executeFrom_success:
  assumes "attempt \<le> maxRetries" and "attemptOnce number platform s attempt db = Inr (r, db')"
  shows "executeFrom number platform s attempt lastError delays db = (r, delays, db')"
  using assms by (simp add: executeFrom.simps)

lemma executeFrom_fail_now:
  assumes "attempt \<le> maxRetries" and "attemptOnce number platform s attempt db = Inl m"
    and "\<not> isRetryableError m \<or> attempt = maxRetries"
  shows "executeFrom number platform s attempt lastError delays db =
           (failedExecution s (Some m), delays,
            recordExecutionStep (ps_session_id s) (failedExecution s (Some m)) db)"
  using assms by (subst executeFrom.simps) auto

lemma executeFrom_retry:
  assumes "attempt < maxRetries" and "attemptOnce number platform s attempt db = Inl m"
    and "isRetryableError m"
  shows "executeFrom number platform s attempt lastError delays db =
           executeFrom number platform s (attempt + 1) (Some m)
             (delays @ [retryDelay * 2 ^ (attempt - 1)]) db"
  using assms by (subst executeFrom.simps) auto

lemma retry_examples:
  "isRetryableError ''Network timeout''" "isRetryableError ''temporary glitch''"
  "\<not> isRetryableError ''upstream unavailable''" "\<not> isRetryableError ''rate-limit exceeded''"
  by (simp_all add: isRetryableError_def retryableErrors_def toLowerCase_def lowerChar_def)

lemma validate_orderSignal: "validateTradeParameters parseFloat orderSignal = []"
  by (simp add: validateTradeParameters_def orderSignal_def parseFloat_example_fields
      toLowerCase_def lowerChar_def jge_def)

lemma attemptOnce_failingPlatform:
  "attemptOnce parseFloat (failingPlatform m) orderSignal k db = Inl m"
  by (simp add: attemptOnce_def validate_orderSignal failingPlatform_def)

lemma attemptOnce_partialPlatform:
  "attemptOnce parseFloat partialPlatform orderSignal k db =
     Inr (partialExecution,
          recordExecutionStep ''s1'' partialExecution
            (handlePartialFill ''s1'' (Fin 1000) (Fin 750) db))"
  by (simp add: attemptOnce_def validate_orderSignal[unfolded orderSignal_def]
      partialPlatform_def prepareExecutionData_def orderSignal_def parseFloat_example_fields
      partialExecution_def jsub_def Let_def)

lemma attemptOnce_scriptedPlatform:
  "attemptOnce parseFloat (scriptedPlatform ms) orderSignal k db =
     (if 1 \<le> k \<and> k \<le> length ms then Inl (ms ! (k - 1))
      else Inr (partialExecution,
                recordExecutionStep ''s1'' partialExecution
                  (handlePartialFill ''s1'' (Fin 1000) (Fin 750) db)))"
proof (cases "1 \<le> k \<and> k \<le> length ms")
  case True
  then show ?thesis
    by (simp add: attemptOnce_def validate_orderSignal scriptedPlatform_def)
next
  case False
  then have "scriptedPlatform ms k = partialPlatform k"
    by (auto simp: scriptedPlatform_def fun_eq_iff)
  then have "attemptOnce parseFloat (scriptedPlatform ms) orderSignal k db =
             attemptOnce parseFloat partialPlatform orderSignal k db"
    by (simp add: attemptOnce_def validate_orderSignal)
  with False show ?thesis by (simp add: attemptOnce_partialPlatform)
qed

lemma executeTrade_all_retryable:
  assumes "isRetryableError m"
  shows "executeTrade parseFloat (failingPlatform m) orderSignal db =
     (failedExecution orderSignal (Some m), [5000, 10000],
      recordExecutionStep ''s1'' (failedExecution orderSignal (Some m)) db)"
proof -
  have two: "Suc (Suc 0) = 2" and three: "Suc 2 = 3" by simp_all
  have s: "ps_session_id orderSignal = ''s1''" by (simp add: orderSignal_def)
  show ?thesis
    unfolding executeTrade_def
    using assms
    by (simp add: executeFrom_retry executeFrom_fail_now attemptOnce_failingPlatform
        maxRetries_def retryDelay_def two three s)
qed

lemma executeTrade_not_retryable:
  assumes "\<not> isRetryableError m"
  shows "executeTrade parseFloat (failingPlatform m) orderSignal db =
     (failedExecution orderSignal (Some m), [],
      recordExecutionStep ''s1'' (failedExecution orderSignal (Some m)) db)"
proof -
  have s: "ps_session_id orderSignal = ''s1''" by (simp add: orderSignal_def)
  show ?thesis
    unfolding executeTrade_def
    using assms
    by (simp add: executeFrom_fail_now attemptOnce_failingPlatform maxRetries_def s)
qed

text \<open>
  Claim C9 lists three delays (5 s, 10 s, 20 s) and seven transient substrings. Three
  attempts that all fail with a network error are separated by two waits, 5 s and 10 s: no
  wait follows the third attempt, so 20 s never occurs. A message with \<^verbatim>\<open>temporary\<close>, which
  the claim does not list, is retried; a message with \<^verbatim>\<open>unavailable\<close> but not
  \<^verbatim>\<open>service unavailable\<close> fails at once.
\<close>

theorem retry_policy_counterexample:
  "executeTrade parseFloat (failingPlatform ''Network timeout'') orderSignal emptyDatabase =
     (failedExecution orderSignal (Some ''Network timeout''), [5000, 10000],
      recordExecutionStep ''s1'' (failedExecution orderSignal (Some ''Network timeout''))
        emptyDatabase)
   \<and> isRetryableError ''temporary glitch''
   \<and> fst (snd (executeTrade parseFloat (failingPlatform ''temporary glitch'') orderSignal
         emptyDatabase)) = [5000, 10000]
   \<and> \<not> isRetryableError ''upstream unavailable''
   \<and> fst (snd (executeTrade parseFloat (failingPlatform ''upstream unavailable'') orderSignal
         emptyDatabase)) = []"
  by (simp add: retry_examples executeTrade_all_retryable executeTrade_not_retryable)

text \<open>
  Claim C9, amended. \<open>executeTrade\<close> makes at most three attempts. It returns the
  execution of the first attempt that does not throw. An attempt that throws is retried
  only if it is the first or the second and the lower-cased message of its error contains
  one of \<^verbatim>\<open>network\<close>, \<^verbatim>\<open>timeout\<close>, \<^verbatim>\<open>connection\<close>, \<^verbatim>\<open>temporary\<close>, \<^verbatim>\<open>rate limit\<close>,
  \<^verbatim>\<open>server error\<close>, \<^verbatim>\<open>gateway\<close>, \<^verbatim>\<open>service unavailable\<close>; the wait is 5000 ms after
  the first attempt and 10000 ms after the second. Any other error, and any error of the
  third attempt, ends the loop at once: the result is \<^verbatim>\<open>FAILED\<close> with the message of that
  last error, recorded as a failed step.
\<close>

theorem executeTrade_retry_policy:
  "(attemptOnce number platform s 1 db = Inr (r, db') \<longrightarrow>
      executeTrade number platform s db = (r, [], db'))
   \<and> (attemptOnce number platform s 1 db = Inl ma \<and> \<not> isRetryableError ma \<longrightarrow>
      executeTrade number platform s db =
        (failedExecution s (Some ma), [],
         recordExecutionStep (ps_session_id s) (failedExecution s (Some ma)) db))
   \<and> (attemptOnce number platform s 1 db = Inl ma \<and> isRetryableError ma
       \<and> attemptOnce number platform s 2 db = Inr (r, db') \<longrightarrow>
      executeTrade number platform s db = (r, [5000], db'))
   \<and> (attemptOnce number platform s 1 db = Inl ma \<and> isRetryableError ma
       \<and> attemptOnce number platform s 2 db = Inl mb \<and> \<not> isRetryableError mb \<longrightarrow>
      executeTrade number platform s db =
        (failedExecution s (Some mb), [5000],
         recordExecutionStep (ps_session_id s) (failedExecution s (Some mb)) db))
   \<and> (attemptOnce number platform s 1 db = Inl ma \<and> isRetryableError ma
       \<and> attemptOnce number platform s 2 db = Inl mb \<and> isRetryableError mb
       \<and> attemptOnce number platform s 3 db = Inr (r, db') \<longrightarrow>
      executeTrade number platform s db = (r, [5000, 10000], db'))
   \<and> (attemptOnce number platform s 1 db = Inl ma \<and> isRetryableError ma
       \<and> attemptOnce number platform s 2 db = Inl mb \<and> isRetryableError mb
       \<and> attemptOnce number platform s 3 db = Inl mc \<longrightarrow>
      executeTrade number platform s db =
        (failedExecution s (Some mc), [5000, 10000],
         recordExecutionStep (ps_session_id s) (failedExecution s (Some mc)) db))
   \<and> isRetryableError message =
        (str_includes (toLowerCase message) ''network''
         \<or> str_includes (toLowerCase message) ''timeout''
         \<or> str_includes (toLowerCase message) ''connection''
         \<or> str_includes (toLowerCase message) ''temporary''
         \<or> str_includes (toLowerCase message) ''rate limit''
         \<or> str_includes (toLowerCase message) ''server error''
         \<or> str_includes (toLowerCase message) ''gateway''
         \<or> str_includes (toLowerCase message) ''service unavailable'')
   \<and> (mc \<noteq> [] \<longrightarrow> te_status (failedExecution s (Some mc)) = FAILED
                   \<and> te_error (failedExecution s (Some mc)) = Some mc)"
proof -
  have two: "Suc (Suc 0) = 2" and three: "Suc 2 = 3" by simp_all
  have list: "isRetryableError message =
        (str_includes (toLowerCase message) ''network''
         \<or> str_includes (toLowerCase message) ''timeout''
         \<or> str_includes (toLowerCase message) ''connection''
         \<or> str_includes (toLowerCase message) ''temporary''
         \<or> str_includes (toLowerCase message) ''rate limit''
         \<or> str_includes (toLowerCase message) ''server error''
         \<or> str_includes (toLowerCase message) ''gateway''
         \<or> str_includes (toLowerCase message) ''service unavailable'')"
    by (simp only: isRetryableError_def retryableErrors_def list_ex_Cons_iff list_ex_Nil_iff simp_thms)
  have failed: "mc \<noteq> [] \<longrightarrow> te_status (failedExecution s (Some mc)) = FAILED
                   \<and> te_error (failedExecution s (Some mc)) = Some mc"
    by (simp add: failedExecution_def)
  show ?thesis
    unfolding executeTrade_def
    by (intro conjI impI list failed[rule_format, THEN conjunct1] failed[rule_format, THEN conjunct2])
       (simp_all add: executeFrom_success executeFrom_fail_now executeFrom_retry
          maxRetries_def retryDelay_def two three)
qed

theorem executeTrade_retry_policy_witness:
  "isRetryableError ''Network timeout'' \<and> \<not> isRetryableError ''Insufficient balance''
   \<and> executeTrade parseFloat (scriptedPlatform []) orderSignal emptyDatabase =
       (partialExecution, [],
        recordExecutionStep ''s1'' partialExecution
          (handlePartialFill ''s1'' (Fin 1000) (Fin 750) emptyDatabase))
   \<and> executeTrade parseFloat (scriptedPlatform [''Insufficient balance'']) orderSignal
         emptyDatabase =
       (failedExecution orderSignal (Some ''Insufficient balance''), [],
        recordExecutionStep (ps_session_id orderSignal)
          (failedExecution orderSignal (Some ''Insufficient balance'')) emptyDatabase)
   \<and> executeTrade parseFloat (scriptedPlatform [''Network timeout'']) orderSignal
         emptyDatabase =
       (partialExecution, [5000],
        recordExecutionStep ''s1'' partialExecution
          (handlePartialFill ''s1'' (Fin 1000) (Fin 750) emptyDatabase))
   \<and> executeTrade parseFloat
         (scriptedPlatform [''Network timeout'', ''Insufficient balance'']) orderSignal
         emptyDatabase =
       (failedExecution orderSignal (Some ''Insufficient balance''), [5000],
        recordExecutionStep (ps_session_id orderSignal)
          (failedExecution orderSignal (Some ''Insufficient balance'')) emptyDatabase)
   \<and> executeTrade parseFloat
         (scriptedPlatform [''Network timeout'', ''Network timeout'']) orderSignal
         emptyDatabase =
       (partialExecution, [5000, 10000],
        recordExecutionStep ''s1'' partialExecution
          (handlePartialFill ''s1'' (Fin 1000) (Fin 750) emptyDatabase))
   \<and> executeTrade parseFloat
         (scriptedPlatform [''Network timeout'', ''Network timeout'', ''Network timeout''])
         orderSignal emptyDatabase =
       (failedExecution orderSignal (Some ''Network timeout''), [5000, 10000],
        recordExecutionStep (ps_session_id orderSignal)
          (failedExecution orderSignal (Some ''Network timeout'')) emptyDatabase)
   \<and> te_status (failedExecution orderSignal (Some ''Network timeout'')) = FAILED
   \<and> te_error (failedExecution orderSignal (Some ''Network timeout''))
       = Some ''Network timeout''"
proof -
  have r: "isRetryableError ''Network timeout''" "\<not> isRetryableError ''Insufficient balance''"
    by (simp_all add: isRetryableError_def retryableErrors_def toLowerCase_def lowerChar_def)
  have ne: "''Network timeout'' \<noteq> []" by simp
  note a = attemptOnce_scriptedPlatform
  note t = executeTrade_retry_policy
             [where number = parseFloat and s = orderSignal and db = emptyDatabase
                and r = partialExecution
                and db' = "recordExecutionStep ''s1'' partialExecution
                             (handlePartialFill ''s1'' (Fin 1000) (Fin 750) emptyDatabase)"]
  have c1: "executeTrade parseFloat (scriptedPlatform []) orderSignal emptyDatabase =
       (partialExecution, [],
        recordExecutionStep ''s1'' partialExecution
          (handlePartialFill ''s1'' (Fin 1000) (Fin 750) emptyDatabase))"
    using t[where platform = "scriptedPlatform []"] by (simp add: a)
  have c2: "executeTrade parseFloat (scriptedPlatform [''Insufficient balance'']) orderSignal
         emptyDatabase =
       (failedExecution orderSignal (Some ''Insufficient balance''), [],
        recordExecutionStep (ps_session_id orderSignal)
          (failedExecution orderSignal (Some ''Insufficient balance'')) emptyDatabase)"
    using t[where platform = "scriptedPlatform [''Insufficient balance'']"
              and ma = "''Insufficient balance''"] r
    by (simp add: a)
  have c3: "executeTrade parseFloat (scriptedPlatform [''Network timeout'']) orderSignal
         emptyDatabase =
       (partialExecution, [5000],
        recordExecutionStep ''s1'' partialExecution
          (handlePartialFill ''s1'' (Fin 1000) (Fin 750) emptyDatabase))"
    using t[where platform = "scriptedPlatform [''Network timeout'']"
              and ma = "''Network timeout''"] r
    by (simp add: a)
  have c4: "executeTrade parseFloat
         (scriptedPlatform [''Network timeout'', ''Insufficient balance'']) orderSignal
         emptyDatabase =
       (failedExecution orderSignal (Some ''Insufficient balance''), [5000],
        recordExecutionStep (ps_session_id orderSignal)
          (failedExecution orderSignal (Some ''Insufficient balance'')) emptyDatabase)"
    using t[where platform = "scriptedPlatform [''Network timeout'', ''Insufficient balance'']"
              and ma = "''Network timeout''" and mb = "''Insufficient balance''"] r
    by (simp add: a)
  have c5: "executeTrade parseFloat
         (scriptedPlatform [''Network timeout'', ''Network timeout'']) orderSignal
         emptyDatabase =
       (partialExecution, [5000, 10000],
        recordExecutionStep ''s1'' partialExecution
          (handlePartialFill ''s1'' (Fin 1000) (Fin 750) emptyDatabase))"
    using t[where platform = "scriptedPlatform [''Network timeout'', ''Network timeout'']"
              and ma = "''Network timeout''" and mb = "''Network timeout''"] r
    by (simp add: a)
  have c6: "executeTrade parseFloat
         (scriptedPlatform [''Network timeout'', ''Network timeout'', ''Network timeout''])
         orderSignal emptyDatabase =
       (failedExecution orderSignal (Some ''Network timeout''), [5000, 10000],
        recordExecutionStep (ps_session_id orderSignal)
          (failedExecution orderSignal (Some ''Network timeout'')) emptyDatabase)
      \<and> te_status (failedExecution orderSignal (Some ''Network timeout'')) = FAILED
      \<and> te_error (failedExecution orderSignal (Some ''Network timeout''))
           = Some ''Network timeout''"
    using t[where platform =
                "scriptedPlatform [''Network timeout'', ''Network timeout'', ''Network timeout'']"
              and ma = "''Network timeout''" and mb = "''Network timeout''"
              and mc = "''Network timeout''"] r ne
    by (simp add: a)
  from r c1 c2 c3 c4 c5 c6 show ?thesis by blast
qed

lemma executeTrade_partialPlatform:
  "executeTrade parseFloat partialPlatform orderSignal db =
     (partialExecution, [],
      recordExecutionStep ''s1'' partialExecution
        (handlePartialFill ''s1'' (Fin 1000) (Fin 750) db))"
  unfolding executeTrade_def
  by (simp add: executeFrom_success attemptOnce_partialPlatform maxRetries_def)

lemma first_fill:
  "recordExecutionStep ''s1'' partialExecution
        (handlePartialFill ''s1'' (Fin 1000) (Fin 750) emptyDatabase) =
   \<lparr>sessions = [], session_steps =
      [\<lparr>step_session_id = ''s1'', step_number = 1, node_name = ''EXECUTE'',
        action = Some ''execute'', stake_value = Some (Fin 0), stake_result = None,
        step_type = ''EXECUTE'', execution_status = Some ''SUCCESS'',
        trade_result_actual = None\<rparr>]\<rparr>"
  by (simp add: recordExecutionStep_def handlePartialFill_def emptyDatabase_def
      nextStepNumber_def partialExecution_def isExecuteStepOf_def)

text \<open>
  Claim C8 asks that a partial fill overwrite the stake recorded for that execution step.
  The update runs before the step of the execution is inserted: an order of 1000 filled
  for 750 reports \<^verbatim>\<open>SUCCESS\<close> and leaves its own step, the only \<^verbatim>\<open>EXECUTE\<close> step of the
  session, with stake 0; when the session already has an \<^verbatim>\<open>EXECUTE\<close> step, it is that
  earlier step whose stake becomes 750, and the new step again holds 0.
\<close>

theorem partial_fill_step_keeps_zero_stake:
  "te_status (fst (executeTrade parseFloat partialPlatform orderSignal emptyDatabase)) = SUCCESS
   \<and> actual_quantity (fst (executeTrade parseFloat partialPlatform orderSignal emptyDatabase))
       = Some (Fin (1 / 60))
   \<and> jmul (Fin (1 / 60)) (Fin 45000) = Fin 750
   \<and> map (\<lambda>s. (step_number s, step_type s, stake_value s))
        (session_steps (snd (snd (executeTrade parseFloat partialPlatform orderSignal
           emptyDatabase))))
       = [(1, ''EXECUTE'', Some (Fin 0))]
   \<and> map (\<lambda>s. (step_number s, step_type s, stake_value s))
        (session_steps (snd (snd (executeTrade parseFloat partialPlatform orderSignal
           (snd (snd (executeTrade parseFloat partialPlatform orderSignal emptyDatabase)))))))
       = [(1, ''EXECUTE'', Some (Fin 750)), (2, ''EXECUTE'', Some (Fin 0))]"
  by (simp add: executeTrade_partialPlatform first_fill)
     (simp add: recordExecutionStep_def handlePartialFill_def
      nextStepNumber_def partialExecution_def isExecuteStepOf_def)

section \<open>The stake solver\<close>

lemma totalCosts_at_netAmount:
  "cr_totalCosts (calculateTradeCosts cfg cd nominal e p t) =
     tradeCostsAt cfg cd (netAmount (calculateTradeCosts cfg cd nominal e p t)) e"
  by (simp add: calculateTradeCosts_def tradeCostsAt_def Let_def)

lemma actualNetProfit_is_netProfitAt:
  "actualNetProfitOf (calculateTradeCosts cfg cd nominal e p t) e p =
     netProfitAt cfg cd (netAmount (calculateTradeCosts cfg cd nominal e p t)) e p"
  by (simp add: actualNetProfitOf_def netProfitAt_def totalCosts_at_netAmount)

lemma solveFrom_outcomes:
  assumes "solveFrom cfg cd t e p m k s = (ex, r)"
  shows "(\<exists>j. ex = Converged j \<and> k \<le> j \<and> j < maxIterations
            \<and> jle (Math_abs (jsub (netProfitAt cfg cd (adjustedStake r) e p) t)) tolerance
            \<and> expectedNetProfit r = netProfitAt cfg cd (adjustedStake r) e p)
       \<or> (ex = Capped \<and> r = finalCalculation cfg cd t e p m)
       \<or> (ex = Exhausted
           \<and> r = finalCalculation cfg cd t e p
                 ((scaleStake cfg cd t e p ^^ (maxIterations - k)) s))"
  using assms
proof (induction cfg cd t e p m k s rule: solveFrom.induct)
  case (1 cfg cd t e p m k s)
  let ?c = "calculateTradeCosts cfg cd s e p t"
  let ?a = "actualNetProfitOf ?c e p"
  show ?case
  proof (cases "k < maxIterations")
    case False
    with "1.prems" show ?thesis by (simp add: solveFrom.simps[of cfg cd t e p m k s])
  next
    case it: True
    show ?thesis
    proof (cases "jle (Math_abs (jsub ?a t)) tolerance")
      case True
      with it "1.prems" have ex: "ex = Converged k"
        and r: "r = \<lparr>adjustedStake = netAmount ?c, expectedNetProfit = ?a,
                     sa_totalCosts = cr_totalCosts ?c\<rparr>"
        by (simp_all add: solveFrom.simps[of cfg cd t e p m k s] Let_def)
      from True r have "jle (Math_abs (jsub (netProfitAt cfg cd (adjustedStake r) e p) t)) tolerance"
        by (simp add: actualNetProfit_is_netProfitAt)
      moreover from r have "expectedNetProfit r = netProfitAt cfg cd (adjustedStake r) e p"
        by (simp add: actualNetProfit_is_netProfitAt)
      ultimately show ?thesis using ex it by blast
    next
      case nc: False
      let ?s' = "jmul s (jdiv t ?a)"
      show ?thesis
      proof (cases "jgt ?s' m")
        case True
        with it nc "1.prems" show ?thesis
          by (simp add: solveFrom.simps[of cfg cd t e p m k s] Let_def)
      next
        case False
        with it nc "1.prems" have rec: "solveFrom cfg cd t e p m (k + 1) ?s' = (ex, r)"
          by (simp add: solveFrom.simps[of cfg cd t e p m k s] Let_def)
        have s': "?s' = scaleStake cfg cd t e p s" by (simp add: scaleStake_def)
        from it have "maxIterations - k = Suc (maxIterations - (k + 1))" by simp
        then have pow: "(scaleStake cfg cd t e p ^^ (maxIterations - (k + 1))) ?s'
                      = (scaleStake cfg cd t e p ^^ (maxIterations - k)) s"
          by (simp add: s' funpow_swap1)
        from "1.IH"[OF it refl refl refl nc refl refl False rec]
        show ?thesis unfolding pow by auto
      qed
    qed
  qed
qed


lemma Math_min_below_cap:
  assumes "b = NaN \<or> b = NInf \<or> (\<exists>x. x \<le> c \<and> b = Fin x)"
  shows "Math_min a b = NaN \<or> Math_min a b = NInf \<or> (\<exists>x. x \<le> c \<and> Math_min a b = Fin x)"
  using assms by (cases a) auto

lemma maxAllowedStake_tenth:
  "calculateMaxAllowedStake (Fin m) cd = NaN \<or> calculateMaxAllowedStake (Fin m) cd = NInf
   \<or> (\<exists>x. x \<le> m / 10 \<and> calculateMaxAllowedStake (Fin m) cd = Fin x)"
proof -
  have "jmul (Fin m) (Fin (1 / 10)) = Fin (m / 10)" by simp
  then have "\<exists>x. x \<le> m / 10 \<and> jmul (Fin m) (Fin (1 / 10)) = Fin x" by blast
  then show ?thesis
    unfolding calculateMaxAllowedStake_def Let_def
    by (intro Math_min_below_cap disjI2)
qed

lemma netAmount_tenth:
  "netAmount (calculateTradeCosts cfg cd (Fin m) e p t) = NaN
   \<or> netAmount (calculateTradeCosts cfg cd (Fin m) e p t) = NInf
   \<or> (\<exists>x. x \<le> m / 10 \<and> netAmount (calculateTradeCosts cfg cd (Fin m) e p t) = Fin x)"
  using Math_min_below_cap[OF maxAllowedStake_tenth]
  by (simp add: calculateTradeCosts_def Let_def)

text \<open>
  Claim C3 says the solver returns a stake whose net profit is within 0.01 of the target,
  or else exactly the cap. With the demo costs, a target of 650 on a move from 45000 to
  46000 and a cap of 10000 (a tenth of a balance of 100000, as the caller passes it), the
  scaled stake exceeds the cap in the first iteration and the solver returns 1000: the
  final cost calculation clamps the cap to a tenth of itself. The net profit at a stake of
  1000 is about 16.92, nowhere near 650, and 1000 is not the cap.
\<close>

theorem stake_solver_cap_counterexample:
  "adjustStakeForNetProfit demoConfig demoCostData (Fin 650) (Fin 45000) (Fin 46000) (Fin 10000)
     = (Capped, \<lparr>adjustedStake = Fin 1000, expectedNetProfit = Fin 650,
                 sa_totalCosts = Fin (53 / 10)\<rparr>)
   \<and> netProfitAt demoConfig demoCostData (Fin 1000) (Fin 45000) (Fin 46000) = Fin (1523 / 90)
   \<and> \<not> jle (Math_abs (jsub (Fin (1523 / 90)) (Fin 650))) tolerance
   \<and> Fin 1000 \<noteq> Fin 10000"
  by (simp add: adjustStakeForNetProfit_def solveFrom.simps maxIterations_def tolerance_def
      finalCalculation_def actualNetProfitOf_def netProfitAt_def tradeCostsAt_def
      calculateTradeCosts_def calculateCommission_def calculateSpreadCost_def
      calculateSwapCost_def calculateMaxAllowedStake_def demoConfig_def demoCostData_def
      jsub_def Let_def)

text \<open>
  Claim C3, amended. For every input with a positive cap the solver returns in one of
  three ways. Converged, in fewer than ten iterations: the net profit recomputed at the
  returned stake is within 0.01 of the target. Cap-bound: the returned stake is the
  risk-adjusted stake of the cost calculation at a nominal amount equal to the cap, the
  smaller of the required stake and the maximum allowed stake; it is never more than a
  tenth of the cap, so never the cap itself. Out of iterations: the returned stake is the
  risk-adjusted stake of the cost calculation at the tenth scaled stake, whatever its net
  profit.
\<close>

theorem stake_solver_outcomes:
  assumes "adjustStakeForNetProfit cfg cd t e p (Fin m) = (ex, r)" and "0 < m"
  shows "(\<exists>j. j < 10 \<and> ex = Converged j
            \<and> jle (Math_abs (jsub (netProfitAt cfg cd (adjustedStake r) e p) t)) (Fin (1 / 100))
            \<and> expectedNetProfit r = netProfitAt cfg cd (adjustedStake r) e p)
       \<or> (ex = Capped
           \<and> adjustedStake r = netAmount (calculateTradeCosts cfg cd (Fin m) e p t)
           \<and> adjustedStake r \<noteq> Fin m
           \<and> (adjustedStake r = NaN \<or> adjustedStake r = NInf
               \<or> (\<exists>x. x \<le> m / 10 \<and> adjustedStake r = Fin x)))
       \<or> (ex = Exhausted
           \<and> adjustedStake r =
               netAmount (calculateTradeCosts cfg cd
                 ((scaleStake cfg cd t e p ^^ 10) (jdiv t (Fin (1 / 100)))) e p t))"
proof -
  from assms(1) have "solveFrom cfg cd t e p (Fin m) 0 (jdiv t (Fin (1 / 100))) = (ex, r)"
    by (simp add: adjustStakeForNetProfit_def)
  from solveFrom_outcomes[OF this]
  consider (conv) j where "ex = Converged j" "j < maxIterations"
      "jle (Math_abs (jsub (netProfitAt cfg cd (adjustedStake r) e p) t)) tolerance"
      "expectedNetProfit r = netProfitAt cfg cd (adjustedStake r) e p"
    | (cap) "ex = Capped" "r = finalCalculation cfg cd t e p (Fin m)"
    | (exh) "ex = Exhausted"
        "r = finalCalculation cfg cd t e p
               ((scaleStake cfg cd t e p ^^ (maxIterations - 0)) (jdiv t (Fin (1 / 100))))"
    by blast
  then show ?thesis
  proof cases
    case conv
    then show ?thesis by (auto simp: maxIterations_def tolerance_def)
  next
    case cap
    have a: "adjustedStake r = netAmount (calculateTradeCosts cfg cd (Fin m) e p t)"
      using cap(2) by (simp add: finalCalculation_def Let_def)
    note b = netAmount_tenth[of cfg cd m e p t]
    from b assms(2) have "netAmount (calculateTradeCosts cfg cd (Fin m) e p t) \<noteq> Fin m"
      by auto
    with a b cap(1) show ?thesis by simp
  next
    case exh
    then show ?thesis by (simp add: finalCalculation_def Let_def maxIterations_def)
  qed
qed

theorem stake_solver_outcomes_witness:
  "adjustStakeForNetProfit demoConfig demoCostData (Fin 650) (Fin 45000) (Fin 46000) (Fin 10000)
     = (Capped, \<lparr>adjustedStake = Fin 1000, expectedNetProfit = Fin 650,
                 sa_totalCosts = Fin (53 / 10)\<rparr>)
   \<and> (0::rat) < 10000
   \<and> netAmount (calculateTradeCosts demoConfig demoCostData (Fin 10000) (Fin 45000) (Fin 46000)
        (Fin 650)) = Fin 1000
   \<and> (\<exists>x. x \<le> (10000::rat) / 10 \<and> Fin 1000 = Fin x)"
proof -
  have run: "adjustStakeForNetProfit demoConfig demoCostData (Fin 650) (Fin 45000) (Fin 46000)
       (Fin 10000)
     = (Capped, \<lparr>adjustedStake = Fin 1000, expectedNetProfit = Fin 650,
                 sa_totalCosts = Fin (53 / 10)\<rparr>)"
    by (simp add: adjustStakeForNetProfit_def solveFrom.simps maxIterations_def tolerance_def
      finalCalculation_def actualNetProfitOf_def
      calculateTradeCosts_def calculateCommission_def calculateSpreadCost_def
      calculateSwapCost_def calculateMaxAllowedStake_def demoConfig_def demoCostData_def
      jsub_def Let_def)
  have pos: "(0::rat) < 10000" by simp
  have n: "netAmount (calculateTradeCosts demoConfig demoCostData (Fin 10000) (Fin 45000)
        (Fin 46000) (Fin 650)) = Fin 1000"
    by (simp add: calculateTradeCosts_def calculateCommission_def calculateSpreadCost_def
      calculateSwapCost_def calculateMaxAllowedStake_def demoConfig_def demoCostData_def
      jsub_def Let_def)
  have x: "\<exists>x. x \<le> (10000::rat) / 10 \<and> Fin 1000 = Fin x"
    by (intro exI[of _ 1000]) simp
  from stake_solver_outcomes[OF run pos] run pos n x show ?thesis by blast
qed


text \<open>
  Claim C4 says the solver fails fast with a domain error when the entry price equals the
  target price, and that no division by zero is reachable. There is no such guard: with
  both prices at 45000 the price-move ratio is 0, the first cost calculation divides the
  required gross profit by it (the quotient is \<^verbatim>\<open>Infinity\<close>, and the stake falls back to the
  maximum allowed 6500), and the solver runs all ten iterations and returns the stake
  \<^verbatim>\<open>NaN\<close> without any error.
\<close>

theorem equal_prices_no_domain_error_counterexample:
  "jdiv (Math_abs (jsub (Fin 45000) (Fin 45000))) (Fin 45000) = Fin 0
   \<and> jdiv (jadd (Fin 650) (tradeCostsAt demoConfig demoCostData (Fin 65000) (Fin 45000))) (Fin 0)
       = PInf
   \<and> netAmount (calculateTradeCosts demoConfig demoCostData (Fin 65000) (Fin 45000) (Fin 45000)
        (Fin 650)) = Fin 6500
   \<and> adjustStakeForNetProfit demoConfig demoCostData (Fin 650) (Fin 45000) (Fin 45000)
        (Fin 10000)
       = (Exhausted, \<lparr>adjustedStake = NaN, expectedNetProfit = Fin 650, sa_totalCosts = NaN\<rparr>)"
  by (simp add: adjustStakeForNetProfit_def solveFrom.simps maxIterations_def tolerance_def
      finalCalculation_def actualNetProfitOf_def tradeCostsAt_def
      calculateTradeCosts_def calculateCommission_def calculateSpreadCost_def
      calculateSwapCost_def calculateMaxAllowedStake_def demoConfig_def demoCostData_def
      jsub_def Let_def)

lemma jdiv_zero_not_finite: "jdiv x (Fin 0) \<noteq> Fin q"
  by (cases x) auto

text \<open>
  Claim C4, amended. The solver has no guard for equal prices and raises no error: when
  the entry price equals the target price (and is not 0) the price-move ratio is 0, the
  required stake of every cost calculation is a division by zero, which yields an infinity
  or \<^verbatim>\<open>NaN\<close> and never a finite number, and the risk-adjusted stake is the minimum of that
  and the maximum allowed stake. On every input the solver returns, converged within fewer
  than ten iterations, cap-bound, or out of iterations. When an iteration computes an
  actual net profit of exactly 0 for a positive stake and a target above the tolerance,
  the scaling factor is \<^verbatim>\<open>Infinity\<close>, the scaled stake exceeds any finite cap, and the loop
  ends cap-bound: the result is the final calculation at the cap.
\<close>

theorem equal_prices_and_zero_net:
  "(e \<noteq> 0 \<longrightarrow>
      jdiv (Math_abs (jsub (Fin e) (Fin e))) (Fin e) = Fin 0
      \<and> netAmount (calculateTradeCosts cfg cd nominal (Fin e) (Fin e) t) =
          Math_min (jdiv (jadd t (tradeCostsAt cfg cd nominal (Fin e))) (Fin 0))
            (calculateMaxAllowedStake nominal cd)
      \<and> (\<forall>q. jdiv (jadd t (tradeCostsAt cfg cd nominal (Fin e))) (Fin 0) \<noteq> Fin q))
   \<and> (\<forall>ex r. adjustStakeForNetProfit cfg cd t entry target m = (ex, r) \<longrightarrow>
         (\<exists>j. j < 10 \<and> ex = Converged j) \<or> ex = Capped \<or> ex = Exhausted)
   \<and> (k < 10 \<and> 0 < s \<and> 1 / 100 < tt
       \<and> actualNetProfitOf (calculateTradeCosts cfg cd (Fin s) entry target (Fin tt)) entry target
           = Fin 0 \<longrightarrow>
       solveFrom cfg cd (Fin tt) entry target (Fin cap) k (Fin s) =
         (Capped, finalCalculation cfg cd (Fin tt) entry target (Fin cap)))"
proof (intro conjI impI allI)
  assume "e \<noteq> 0"
  then show "jdiv (Math_abs (jsub (Fin e) (Fin e))) (Fin e) = Fin 0"
    by (simp add: jsub_def)
  then show "netAmount (calculateTradeCosts cfg cd nominal (Fin e) (Fin e) t) =
          Math_min (jdiv (jadd t (tradeCostsAt cfg cd nominal (Fin e))) (Fin 0))
            (calculateMaxAllowedStake nominal cd)"
    by (simp add: calculateTradeCosts_def tradeCostsAt_def Let_def)
next
  fix q
  show "jdiv (jadd t (tradeCostsAt cfg cd nominal (Fin e))) (Fin 0) \<noteq> Fin q"
    by (rule jdiv_zero_not_finite)
next
  fix ex r
  assume "adjustStakeForNetProfit cfg cd t entry target m = (ex, r)"
  then have "solveFrom cfg cd t entry target m 0 (jdiv t (Fin (1 / 100))) = (ex, r)"
    by (simp add: adjustStakeForNetProfit_def)
  from solveFrom_outcomes[OF this]
  show "(\<exists>j. j < 10 \<and> ex = Converged j) \<or> ex = Capped \<or> ex = Exhausted"
    by (auto simp: maxIterations_def)
next
  assume a: "k < 10 \<and> 0 < s \<and> 1 / 100 < tt
       \<and> actualNetProfitOf (calculateTradeCosts cfg cd (Fin s) entry target (Fin tt)) entry target
           = Fin 0"
  then show "solveFrom cfg cd (Fin tt) entry target (Fin cap) k (Fin s) =
         (Capped, finalCalculation cfg cd (Fin tt) entry target (Fin cap))"
    by (simp add: solveFrom.simps[of cfg cd "Fin tt" entry target "Fin cap" k "Fin s"]
        maxIterations_def tolerance_def jsub_def Let_def)
qed


theorem equal_prices_and_zero_net_witness:
  "(45000::rat) \<noteq> 0
   \<and> jdiv (Math_abs (jsub (Fin 45000) (Fin 45000))) (Fin 45000) = Fin 0
   \<and> netAmount (calculateTradeCosts demoConfig demoCostData (Fin 65000) (Fin 45000) (Fin 45000)
        (Fin 650)) =
       Math_min (jdiv (jadd (Fin 650) (tradeCostsAt demoConfig demoCostData (Fin 65000)
                    (Fin 45000))) (Fin 0))
         (calculateMaxAllowedStake (Fin 65000) demoCostData)
   \<and> (0::nat) < 10 \<and> (0::rat) < 4500000 / 1973 \<and> (1::rat) / 100 < 650
   \<and> actualNetProfitOf
        (calculateTradeCosts demoConfig demoCostData (Fin (4500000 / 1973)) (Fin 45000)
           (Fin 46000) (Fin 650)) (Fin 45000) (Fin 46000) = Fin 0
   \<and> solveFrom demoConfig demoCostData (Fin 650) (Fin 45000) (Fin 46000) (Fin 10000) 0
        (Fin (4500000 / 1973)) =
       (Capped, finalCalculation demoConfig demoCostData (Fin 650) (Fin 45000) (Fin 46000)
                  (Fin 10000))
   \<and> adjustStakeForNetProfit demoConfig demoCostData (Fin 650) (Fin 45000) (Fin 46000)
        (Fin 10000)
       = (Capped, \<lparr>adjustedStake = Fin 1000, expectedNetProfit = Fin 650,
                   sa_totalCosts = Fin (53 / 10)\<rparr>)
   \<and> ((\<exists>j. j < 10 \<and> Capped = Converged j) \<or> Capped = Capped \<or> Capped = Exhausted)"
proof -
  have run: "adjustStakeForNetProfit demoConfig demoCostData (Fin 650) (Fin 45000) (Fin 46000)
       (Fin 10000)
     = (Capped, \<lparr>adjustedStake = Fin 1000, expectedNetProfit = Fin 650,
                 sa_totalCosts = Fin (53 / 10)\<rparr>)"
    by (simp add: adjustStakeForNetProfit_def solveFrom.simps maxIterations_def tolerance_def
      finalCalculation_def actualNetProfitOf_def
      calculateTradeCosts_def calculateCommission_def calculateSpreadCost_def
      calculateSwapCost_def calculateMaxAllowedStake_def demoConfig_def demoCostData_def
      jsub_def Let_def)
  have z: "actualNetProfitOf
        (calculateTradeCosts demoConfig demoCostData (Fin (4500000 / 1973)) (Fin 45000)
           (Fin 46000) (Fin 650)) (Fin 45000) (Fin 46000) = Fin 0"
    by (simp add: actualNetProfitOf_def calculateTradeCosts_def calculateCommission_def
      calculateSpreadCost_def calculateSwapCost_def calculateMaxAllowedStake_def
      demoConfig_def demoCostData_def jsub_def Let_def)
  have n: "(45000::rat) \<noteq> 0" "(0::nat) < 10" "(0::rat) < 4500000 / 1973"
    "(1::rat) / 100 < 650" by simp_all
  note t = equal_prices_and_zero_net
             [where e = 45000 and cfg = demoConfig and cd = demoCostData
                and nominal = "Fin 65000" and t = "Fin 650" and k = 0
                and s = "4500000 / 1973" and tt = 650 and entry = "Fin 45000"
                and target = "Fin 46000" and cap = 10000 and m = "Fin 10000"]
  from t z n run show ?thesis by blast
qed


end
